theory Spec2Isabelle
  imports Main "HOL-Library.AList" "HOL-Library.Sublist"
begin

section \<open>The parsed JSON document and Python's operations on it\<close>

text \<open>
  The parser of \<^verbatim>\<open>troposphere_gen/specification.py\<close> receives the values that
  \<^verbatim>\<open>json.load\<close> produces. A dict is an association list in insertion order; a Python
  dict has no duplicate keys, which theorems that count entries state as
  \<open>distinct (map fst kvs)\<close>. Python's \<^verbatim>\<open>None\<close> is \<open>JNull\<close>: a field that the
  constructor initialises to \<^verbatim>\<open>None\<close> and a field that was assigned a JSON null are the
  same value, as in the program. A float is carried as mantissa and exponent; no operation
  of the parser inspects it.
\<close>

datatype json =
    JNull
  | JBool bool
  | JInt int
  | JFloat int int
  | JStr string
  | JArr "json list"
  | JObj "(string \<times> json) list"

text \<open>
  The exceptions the parser can raise. \<open>ValueError fmt v\<close> is
  \<^verbatim>\<open>ValueError(fmt % v)\<close>: the format string and the value it is applied to.
\<close>

datatype error =
    KeyError string
  | ValueError string json
  | TypeError
  | AttributeError

text \<open>\<^verbatim>\<open>key in x\<close>: key membership in a dict, substring test in a str, element
  membership in a list, \<^verbatim>\<open>TypeError\<close> for everything else.\<close>

fun py_contains :: "string \<Rightarrow> json \<Rightarrow> error + bool" where
  "py_contains key (JObj kvs) = Inr (key \<in> set (map fst kvs))"
| "py_contains key (JStr s) = Inr (sublist key s)"
| "py_contains key (JArr xs) = Inr (JStr key \<in> set xs)"
| "py_contains key _ = Inl TypeError"

text \<open>\<^verbatim>\<open>x[key]\<close> with a str key: the value or \<^verbatim>\<open>KeyError\<close> in a dict,
  \<^verbatim>\<open>TypeError\<close> for everything else.\<close>

fun py_getitem :: "json \<Rightarrow> string \<Rightarrow> error + json" where
  "py_getitem (JObj kvs) key =
     (case map_of kvs key of None \<Rightarrow> Inl (KeyError key) | Some v \<Rightarrow> Inr v)"
| "py_getitem _ key = Inl TypeError"

text \<open>\<^verbatim>\<open>x.items()\<close>: only a dict has the method.\<close>

fun py_items :: "json \<Rightarrow> error + (string \<times> json) list" where
  "py_items (JObj kvs) = Inr kvs"
| "py_items _ = Inl AttributeError"

section \<open>The type tags\<close>

text \<open>
  Modelled from the spec: the classes \<^verbatim>\<open>PrimitiveType\<close>, \<^verbatim>\<open>Subproperty\<close>,
  \<^verbatim>\<open>ListType\<close> and \<^verbatim>\<open>MapType\<close> of \<^verbatim>\<open>troposphere_gen.types\<close> are imported by
  the parser and are not part of its source. The spec describes them as opaque tag values
  supplied externally: the first two wrap the value they are built from, the last two wrap
  exactly one item type, and building one never fails.
\<close>

datatype type_tag =
    PrimitiveType json
  | Subproperty json
  | ListType type_tag
  | MapType type_tag

section \<open>Attribute\<close>

record Attribute =
  name :: string
  item_type :: "type_tag option"
  primitive_item_type :: "type_tag option"
  primitive_type :: "type_tag option"
  type :: "type_tag option"

text \<open>
  \<^verbatim>\<open>Attribute.parse\<close>. It works on any extension of the record, as the method works
  on an instance of a subclass.
\<close>

definition Attribute_parse ::
  "'a Attribute_scheme \<Rightarrow> json \<Rightarrow> error + 'a Attribute_scheme" where
  "Attribute_parse self attributedict =
    (case py_contains ''PrimitiveType'' attributedict of Inl e \<Rightarrow> Inl e
     | Inr has_primitive \<Rightarrow>
       if has_primitive then
         (case py_getitem attributedict ''PrimitiveType'' of Inl e \<Rightarrow> Inl e
          | Inr v \<Rightarrow> Inr (self\<lparr>primitive_type := Some (PrimitiveType v)\<rparr>))
       else
         (case py_contains ''Type'' attributedict of Inl e \<Rightarrow> Inl e
          | Inr has_type \<Rightarrow>
            if has_type then
              (case py_getitem attributedict ''Type'' of Inl e \<Rightarrow> Inl e
               | Inr t \<Rightarrow>
                 if t = JStr ''List'' then
                   (case py_contains ''PrimitiveItemType'' attributedict of Inl e \<Rightarrow> Inl e
                    | Inr has_pit \<Rightarrow>
                      if has_pit then
                        (case py_getitem attributedict ''PrimitiveItemType'' of Inl e \<Rightarrow> Inl e
                         | Inr x \<Rightarrow> Inr (self\<lparr>type := Some (ListType (PrimitiveType x))\<rparr>))
                      else
                        (case py_contains ''ItemType'' attributedict of Inl e \<Rightarrow> Inl e
                         | Inr has_it \<Rightarrow>
                           if has_it then
                             (case py_getitem attributedict ''ItemType'' of Inl e \<Rightarrow> Inl e
                              | Inr y \<Rightarrow> Inr (self\<lparr>type := Some (ListType (Subproperty y))\<rparr>))
                           else Inr self))
                 else
                   (case py_getitem attributedict ''Type'' of Inl e \<Rightarrow> Inl e
                    | Inr t' \<Rightarrow>
                      if t' = JStr ''Map'' then
                        (case py_contains ''PrimitiveItemType'' attributedict of Inl e \<Rightarrow> Inl e
                         | Inr has_pit \<Rightarrow>
                           if has_pit then
                             (case py_getitem attributedict ''PrimitiveItemType'' of Inl e \<Rightarrow> Inl e
                              | Inr x \<Rightarrow> Inr (self\<lparr>type := Some (MapType (PrimitiveType x))\<rparr>))
                           else
                             (case py_contains ''ItemType'' attributedict of Inl e \<Rightarrow> Inl e
                              | Inr has_it \<Rightarrow>
                                if has_it then
                                  (case py_getitem attributedict ''ItemType'' of Inl e \<Rightarrow> Inl e
                                   | Inr y \<Rightarrow> Inr (self\<lparr>type := Some (MapType (Subproperty y))\<rparr>))
                                else Inr self))
                      else
                        (case py_getitem attributedict ''Type'' of Inl e \<Rightarrow> Inl e
                         | Inr t'' \<Rightarrow> Inr (self\<lparr>type := Some (Subproperty t'')\<rparr>))))
            else Inr self))"

text \<open>\<^verbatim>\<open>Attribute.__init__\<close>: the four type fields start as \<^verbatim>\<open>None\<close>, then
  \<^verbatim>\<open>parse\<close> runs.\<close>

definition Attribute_new :: "string \<Rightarrow> Attribute" where
  "Attribute_new nm =
     \<lparr>name = nm, item_type = None, primitive_item_type = None,
      primitive_type = None, type = None\<rparr>"

definition Attribute_init :: "string \<Rightarrow> json \<Rightarrow> error + Attribute" where
  "Attribute_init nm attributedict = Attribute_parse (Attribute_new nm) attributedict"

section \<open>Property\<close>

text \<open>
  \<^verbatim>\<open>class Property(Attribute)\<close>: the fields the subclass adds extend the record. The
  mapping \<^verbatim>\<open>properties\<close> holds Property objects again, so the object is the record
  together with that mapping.
\<close>

record Property_fields = Attribute +
  documentation :: json
  duplicate_allowed :: json
  required :: json
  priv_update_type :: json

datatype Property =
  Property_obj (members: Property_fields) (properties: "(string \<times> Property) list")

text \<open>The getter and the setter of the property \<^verbatim>\<open>update_type\<close>.\<close>

definition update_type :: "Property \<Rightarrow> json" where
  "update_type self = priv_update_type (members self)"

definition update_type_setter :: "Property_fields \<Rightarrow> json \<Rightarrow> error + Property_fields" where
  "update_type_setter self u =
     (if u \<in> set [JStr ''Immutable'', JStr ''Mutable'', JStr ''Conditional'']
      then Inr (self\<lparr>priv_update_type := u\<rparr>)
      else Inl (ValueError ''Invalid update type: %s'' u))"

text \<open>\<^verbatim>\<open>Property.__init__\<close> up to the call of \<^verbatim>\<open>parse\<close>: the object with every
  field at its initial value.\<close>

definition Property_new :: "string \<Rightarrow> Property" where
  "Property_new nm =
     Property_obj
       \<lparr>name = nm, item_type = None, primitive_item_type = None,
        primitive_type = None, type = None,
        documentation = JNull, duplicate_allowed = JNull, required = JNull,
        priv_update_type = JNull\<rparr>
       []"

text \<open>The part of \<^verbatim>\<open>Property.parse\<close> after the container branch has returned.\<close>

definition Property_parse_leaf :: "Property_fields \<Rightarrow> json \<Rightarrow> error + Property_fields" where
  "Property_parse_leaf self propertydict =
    (case py_getitem propertydict ''UpdateType'' of Inl e \<Rightarrow> Inl e
     | Inr u \<Rightarrow>
       (case update_type_setter self u of Inl e \<Rightarrow> Inl e
        | Inr self1 \<Rightarrow>
          (case py_getitem propertydict ''Required'' of Inl e \<Rightarrow> Inl e
           | Inr r \<Rightarrow>
             (case Attribute_parse (self1\<lparr>required := r\<rparr>) propertydict of Inl e \<Rightarrow> Inl e
              | Inr self2 \<Rightarrow>
                (case py_contains ''DuplicatesAllowed'' propertydict of Inl e \<Rightarrow> Inl e
                 | Inr has_dup \<Rightarrow>
                   if has_dup then
                     (case py_getitem propertydict ''DuplicatesAllowed'' of Inl e \<Rightarrow> Inl e
                      | Inr d \<Rightarrow> Inr (self2\<lparr>duplicate_allowed := d\<rparr>))
                   else Inr self2)))))"

text \<open>
  \<^verbatim>\<open>Property.__init__\<close>, \<^verbatim>\<open>Property.parse\<close> and the loop over
  \<^verbatim>\<open>propertydict["Properties"].items()\<close>, which stores each sub-property with
  \<^verbatim>\<open>self.properties[name] = ...\<close>.
\<close>

function Property_init :: "string \<Rightarrow> json \<Rightarrow> error + Property"
  and Property_parse :: "Property \<Rightarrow> json \<Rightarrow> error + Property"
  and Property_parse_loop :: "Property \<Rightarrow> (string \<times> json) list \<Rightarrow> error + Property"
where
  "Property_init nm propertydict = Property_parse (Property_new nm) propertydict"
| "Property_parse self propertydict =
    (case py_getitem propertydict ''Documentation'' of Inl e \<Rightarrow> Inl e
     | Inr doc \<Rightarrow>
       (case py_contains ''Properties'' propertydict of Inl e \<Rightarrow> Inl e
        | Inr has_properties \<Rightarrow>
          if has_properties then
            (case py_getitem propertydict ''Properties'' of Inl e \<Rightarrow> Inl e
             | Inr sub \<Rightarrow>
               (case py_items sub of Inl e \<Rightarrow> Inl e
                | Inr items \<Rightarrow>
                  Property_parse_loop
                    (Property_obj ((members self)\<lparr>documentation := doc\<rparr>) (properties self))
                    items))
          else
            (case Property_parse_leaf ((members self)\<lparr>documentation := doc\<rparr>) propertydict of
               Inl e \<Rightarrow> Inl e
             | Inr f \<Rightarrow> Inr (Property_obj f (properties self)))))"
| "Property_parse_loop self [] = Inr self"
| "Property_parse_loop self ((nm, subpropertydict) # rest) =
    (case Property_init nm subpropertydict of Inl e \<Rightarrow> Inl e
     | Inr p \<Rightarrow>
       Property_parse_loop
         (Property_obj (members self) (AList.update nm p (properties self))) rest)"
  by pat_completeness auto
termination
proof (relation "measure (\<lambda>x. case x of
          Inl (nm, d) \<Rightarrow> 2 * size d + 1
        | Inr (Inl (self, d)) \<Rightarrow> 2 * size d
        | Inr (Inr (self, kvs)) \<Rightarrow> 2 * size_list (size_prod (\<lambda>_. 0) size) kvs + 1)",
       goal_cases)
  case (3 self propertydict doc has_properties sub items)
  have getitem_size: "size v < size d" if "py_getitem d k = Inr v" for d k v
  proof (cases d)
    case (JObj kvs)
    with that have "(k, v) \<in> set kvs"
      by (auto split: option.splits dest: map_of_SomeD)
    then have "size v < Suc (size_list (size_prod (\<lambda>_. 0) size) kvs)"
      by (induction kvs) auto
    with JObj show ?thesis by simp
  qed (use that in auto)
  have items_size: "size_list (size_prod (\<lambda>_. 0) size) kvs < size d"
    if "py_items d = Inr kvs" for d kvs
    using that by (cases d) auto
  from 3 have "size sub < size propertydict"
    by (auto dest: getitem_size)
  moreover from 3 have "size_list (size_prod (\<lambda>_. 0) size) items < size sub"
    by (auto dest: items_size)
  ultimately show ?case by simp
qed auto

text \<open>Both functions have one equation with a recursive right-hand side each; they are
  unfolded on demand only.\<close>

declare Property_init.simps [simp del] Property_parse.simps [simp del]

section \<open>Resource\<close>

record Resource =
  name_R :: string
  documentation_R :: json
  attributes :: "(string \<times> Attribute) list"
  properties_R :: "(string \<times> Property) list"

text \<open>The two loops of \<^verbatim>\<open>Resource.parse\<close>: each builds the entity of an entry and
  stores it under the entry's name.\<close>

fun Resource_parse_attributes ::
  "Resource \<Rightarrow> (string \<times> json) list \<Rightarrow> error + Resource" where
  "Resource_parse_attributes self [] = Inr self"
| "Resource_parse_attributes self ((nm, attributedict) # rest) =
    (case Attribute_init nm attributedict of Inl e \<Rightarrow> Inl e
     | Inr a \<Rightarrow>
       Resource_parse_attributes
         (self\<lparr>attributes := AList.update nm a (attributes self)\<rparr>) rest)"

fun Resource_parse_properties ::
  "Resource \<Rightarrow> (string \<times> json) list \<Rightarrow> error + Resource" where
  "Resource_parse_properties self [] = Inr self"
| "Resource_parse_properties self ((nm, propertydict) # rest) =
    (case Property_init nm propertydict of Inl e \<Rightarrow> Inl e
     | Inr p \<Rightarrow>
       Resource_parse_properties
         (self\<lparr>properties_R := AList.update nm p (properties_R self)\<rparr>) rest)"

text \<open>\<^verbatim>\<open>Resource.parse\<close>.\<close>

definition Resource_parse :: "Resource \<Rightarrow> json \<Rightarrow> error + Resource" where
  "Resource_parse self resourcedict =
    (case py_getitem resourcedict ''Documentation'' of Inl e \<Rightarrow> Inl e
     | Inr doc \<Rightarrow>
       (case py_getitem resourcedict ''Attributes'' of Inl e \<Rightarrow> Inl e
        | Inr attrs \<Rightarrow>
          (case py_items attrs of Inl e \<Rightarrow> Inl e
           | Inr attr_items \<Rightarrow>
             (case Resource_parse_attributes (self\<lparr>documentation_R := doc\<rparr>) attr_items of
                Inl e \<Rightarrow> Inl e
              | Inr self1 \<Rightarrow>
                (case py_getitem resourcedict ''Properties'' of Inl e \<Rightarrow> Inl e
                 | Inr props \<Rightarrow>
                   (case py_items props of Inl e \<Rightarrow> Inl e
                    | Inr prop_items \<Rightarrow> Resource_parse_properties self1 prop_items))))))"

text \<open>\<^verbatim>\<open>Resource.__init__\<close>.\<close>

definition Resource_init :: "string \<Rightarrow> json \<Rightarrow> error + Resource" where
  "Resource_init nm resourcedict =
     Resource_parse
       \<lparr>name_R = nm, documentation_R = JNull, attributes = [], properties_R = []\<rparr>
       resourcedict"

text \<open>Whether a call raised.\<close>

definition fails :: "error + 'a \<Rightarrow> bool" where
  "fails r = (case r of Inl e \<Rightarrow> True | Inr x \<Rightarrow> False)"

section \<open>Auxiliary notions for the statements\<close>

text \<open>
  The three loops of the parser have one shape: build the entity of each entry in turn, stop
  at the first failure, store each result under its key. \<open>build_all\<close> is that shape
  with the constructor as a parameter, and \<open>built_from f items out\<close> says that \<open>out\<close>
  holds, entry for entry and under the same keys, what the constructor \<open>f\<close> returned
  for \<open>items\<close>.
\<close>


fun build_all ::
  "(string \<Rightarrow> json \<Rightarrow> error + 'a) \<Rightarrow> (string \<times> 'a) list \<Rightarrow> (string \<times> json) list
    \<Rightarrow> error + (string \<times> 'a) list" where
  "build_all f acc [] = Inr acc"
| "build_all f acc ((k, v) # rest) =
    (case f k v of Inl e \<Rightarrow> Inl e | Inr x \<Rightarrow> build_all f (AList.update k x acc) rest)"

definition built_from ::
  "(string \<Rightarrow> json \<Rightarrow> error + 'a) \<Rightarrow> (string \<times> json) list \<Rightarrow> (string \<times> 'a) list \<Rightarrow> bool" where
  "built_from f items out =
     list_all2 (\<lambda>kv kx. fst kx = fst kv \<and> f (fst kv) (snd kv) = Inr (snd kx)) items out"

text \<open>
  The Attribute Resolver of the spec, branches 1 to 5 in their order of precedence, on the
  entries of a definition dict.
\<close>


definition resolve_type :: "'a Attribute_scheme \<Rightarrow> (string \<times> json) list \<Rightarrow> 'a Attribute_scheme" where
  "resolve_type self kvs =
    (case map_of kvs ''PrimitiveType'' of
       Some v \<Rightarrow> self\<lparr>primitive_type := Some (PrimitiveType v)\<rparr>
     | None \<Rightarrow>
       (case map_of kvs ''Type'' of
          None \<Rightarrow> self
        | Some t \<Rightarrow>
          if t = JStr ''List'' then
            (case map_of kvs ''PrimitiveItemType'' of
               Some x \<Rightarrow> self\<lparr>type := Some (ListType (PrimitiveType x))\<rparr>
             | None \<Rightarrow>
               (case map_of kvs ''ItemType'' of
                  Some y \<Rightarrow> self\<lparr>type := Some (ListType (Subproperty y))\<rparr>
                | None \<Rightarrow> self))
          else if t = JStr ''Map'' then
            (case map_of kvs ''PrimitiveItemType'' of
               Some x \<Rightarrow> self\<lparr>type := Some (MapType (PrimitiveType x))\<rparr>
             | None \<Rightarrow>
               (case map_of kvs ''ItemType'' of
                  Some y \<Rightarrow> self\<lparr>type := Some (MapType (Subproperty y))\<rparr>
                | None \<Rightarrow> self))
          else self\<lparr>type := Some (Subproperty t)\<rparr>))"

section \<open>The loops\<close>

lemma update_fresh: "k \<notin> set (map fst al) \<Longrightarrow> AList.update k x al = al @ [(k, x)]"
  by (induction al) auto

lemma build_all_distinct:
  assumes "build_all f acc items = Inr out" "distinct (map fst items)"
    "set (map fst items) \<inter> set (map fst acc) = {}"
  shows "\<exists>built. out = acc @ built \<and> built_from f items built"
  using assms
proof (induction items arbitrary: acc)
  case Nil
  then show ?case by (simp add: built_from_def)
next
  case (Cons kv rest)
  obtain k v where kv: "kv = (k, v)" by (cases kv)
  from Cons.prems(1) kv obtain x where x: "f k v = Inr x"
    and rest: "build_all f (AList.update k x acc) rest = Inr out"
    by (auto split: sum.splits)
  from Cons.prems(3) kv have fresh: "k \<notin> set (map fst acc)" by auto
  then have upd: "AList.update k x acc = acc @ [(k, x)]" by (rule update_fresh)
  from Cons.prems(2,3) kv have "distinct (map fst rest)"
    "set (map fst rest) \<inter> set (map fst (acc @ [(k, x)])) = {}" by auto
  with Cons.IH[of "acc @ [(k, x)]"] rest upd
  obtain built where "out = (acc @ [(k, x)]) @ built" "built_from f rest built" by auto
  with x kv have "out = acc @ ((k, x) # built) \<and> built_from f (kv # rest) ((k, x) # built)"
    by (simp add: built_from_def)
  then show ?case by blast
qed

lemma build_all_Inl:
  "build_all f acc items = Inl e \<Longrightarrow> \<exists>kv \<in> set items. f (fst kv) (snd kv) = Inl e"
  by (induction items arbitrary: acc) (auto split: sum.splits)

lemma build_all_Inr:
  "build_all f acc items = Inr out \<Longrightarrow> kv \<in> set items \<Longrightarrow> \<exists>x. f (fst kv) (snd kv) = Inr x"
  by (induction items arbitrary: acc) (auto split: sum.splits)

lemma build_all_fails:
  "kv \<in> set items \<Longrightarrow> fails (f (fst kv) (snd kv)) \<Longrightarrow> fails (build_all f acc items)"
  by (cases "build_all f acc items") (auto simp: fails_def dest: build_all_Inr)

lemma built_from_keys: "built_from f items out \<Longrightarrow> map fst out = map fst items"
  unfolding built_from_def by (induction rule: list_all2_induct) auto

lemma Property_parse_loop_build:
  "Property_parse_loop self items =
     map_sum id (Property_obj (members self)) (build_all Property_init (properties self) items)"
  by (induction items arbitrary: self) (auto split: sum.splits)

lemma Resource_parse_attributes_build:
  "Resource_parse_attributes self items =
     map_sum id (\<lambda>al. self\<lparr>attributes := al\<rparr>) (build_all Attribute_init (attributes self) items)"
  by (induction items arbitrary: self) (auto split: sum.splits)

lemma Resource_parse_properties_build:
  "Resource_parse_properties self items =
     map_sum id (\<lambda>al. self\<lparr>properties_R := al\<rparr>) (build_all Property_init (properties_R self) items)"
  by (induction items arbitrary: self) (auto split: sum.splits)

section \<open>The parser on dicts\<close>

lemma py_contains_dict [simp]: "py_contains k (JObj kvs) = Inr (map_of kvs k \<noteq> None)"
  by (simp add: map_of_eq_None_iff)

declare py_contains.simps(1) [simp del]

lemma Attribute_parse_dict: "Attribute_parse self (JObj kvs) = Inr (resolve_type self kvs)"
  unfolding Attribute_parse_def resolve_type_def
  by (simp split: option.split)

lemma Attribute_init_dict: "Attribute_init n (JObj kvs) = Inr (resolve_type (Attribute_new n) kvs)"
  by (simp add: Attribute_init_def Attribute_parse_dict)


lemma resolve_type_other:
  "name (resolve_type self kvs) = name self"
  "item_type (resolve_type self kvs) = item_type self"
  "primitive_item_type (resolve_type self kvs) = primitive_item_type self"
  "Attribute.more (resolve_type self kvs) = Attribute.more self"
  unfolding resolve_type_def by (simp_all split: option.split)

lemma resolve_type_one:
  "primitive_type (resolve_type self kvs) = primitive_type self
    \<or> type (resolve_type self kvs) = type self"
  unfolding resolve_type_def by (simp split: option.split)

lemma resolve_type_cong:
  "primitive_type self = primitive_type self' \<Longrightarrow>
   primitive_type (resolve_type self kvs) = primitive_type (resolve_type self' kvs)"
  "type self = type self' \<Longrightarrow> type (resolve_type self kvs) = type (resolve_type self' kvs)"
  unfolding resolve_type_def by (simp_all split: option.split)

lemma resolve_type_untyped:
  "map_of kvs ''PrimitiveType'' = None \<Longrightarrow> map_of kvs ''Type'' = None \<Longrightarrow>
   resolve_type self kvs = self"
  unfolding resolve_type_def by simp

lemma Property_init_not_dict: "\<forall>kvs. d \<noteq> JObj kvs \<Longrightarrow> Property_init n d = Inl TypeError"
  by (cases d) (simp_all add: Property_init.simps Property_parse.simps)

lemma Property_init_leaf:
  assumes "map_of kvs ''Properties'' = None"
  shows "Property_init n (JObj kvs) =
    (case map_of kvs ''Documentation'' of
       None \<Rightarrow> Inl (KeyError ''Documentation'')
     | Some doc \<Rightarrow>
       (case map_of kvs ''UpdateType'' of
          None \<Rightarrow> Inl (KeyError ''UpdateType'')
        | Some u \<Rightarrow>
          if u \<notin> {JStr ''Immutable'', JStr ''Mutable'', JStr ''Conditional''}
          then Inl (ValueError ''Invalid update type: %s'' u)
          else
            (case map_of kvs ''Required'' of
               None \<Rightarrow> Inl (KeyError ''Required'')
             | Some r \<Rightarrow>
               Inr (Property_obj
                 (let f = resolve_type
                       ((members (Property_new n))
                          \<lparr>documentation := doc, priv_update_type := u, required := r\<rparr>) kvs
                  in case map_of kvs ''DuplicatesAllowed'' of
                       None \<Rightarrow> f | Some d \<Rightarrow> f\<lparr>duplicate_allowed := d\<rparr>)
                 []))))"
  using assms
  by (simp add: Property_init.simps Property_parse.simps
      Property_parse_leaf_def update_type_setter_def  Attribute_parse_dict
      Property_new_def split: option.split)

lemma Property_init_container:
  assumes "map_of kvs ''Properties'' = Some sub"
  shows "Property_init n (JObj kvs) =
    (case map_of kvs ''Documentation'' of
       None \<Rightarrow> Inl (KeyError ''Documentation'')
     | Some doc \<Rightarrow>
       (case py_items sub of Inl e \<Rightarrow> Inl e
        | Inr items \<Rightarrow>
          map_sum id (Property_obj ((members (Property_new n))\<lparr>documentation := doc\<rparr>))
            (build_all Property_init [] items)))"
proof -
  have "Property_init n (JObj kvs) = Property_parse (Property_new n) (JObj kvs)"
    by (simp add: Property_init.simps)
  also have "\<dots> =
    (case map_of kvs ''Documentation'' of
       None \<Rightarrow> Inl (KeyError ''Documentation'')
     | Some doc \<Rightarrow>
       (case py_items sub of Inl e \<Rightarrow> Inl e
        | Inr items \<Rightarrow>
          Property_parse_loop
            (Property_obj ((members (Property_new n))\<lparr>documentation := doc\<rparr>) []) items))"
    using assms
    by (simp add: Property_parse.simps Property_new_def
        split: option.split sum.split)
  finally show ?thesis
    by (simp add: Property_parse_loop_build split: option.split sum.split)
qed

section \<open>What a successful construction returns\<close>

lemma Attribute_parse_not_dict:
  assumes "Attribute_parse self d = Inr a" "\<forall>kvs. d \<noteq> JObj kvs"
  shows "a = self"
  using assms unfolding Attribute_parse_def
  by (cases d) (simp_all split: if_splits)

lemma Attribute_parse_shape:
  assumes "Attribute_parse self d = Inr a"
  shows "name a = name self \<and> item_type a = item_type self
    \<and> primitive_item_type a = primitive_item_type self
    \<and> (primitive_type a = primitive_type self \<or> type a = type self)"
proof (cases "\<exists>kvs. d = JObj kvs")
  case True
  then obtain kvs where "d = JObj kvs" ..
  with assms have "a = resolve_type self kvs" by (simp add: Attribute_parse_dict)
  then show ?thesis by (simp add: resolve_type_other resolve_type_one)
next
  case False
  with assms have "a = self" by (auto dest: Attribute_parse_not_dict)
  then show ?thesis by simp
qed

lemma Attribute_init_shape:
  assumes "Attribute_init n d = Inr a"
  shows "name a = n \<and> item_type a = None \<and> primitive_item_type a = None
    \<and> (primitive_type a = None \<or> type a = None)"
  using Attribute_parse_shape [of "Attribute_new n" d a] assms
  by (simp add: Attribute_init_def Attribute_new_def)

lemma Property_init_leaf_Inr:
  assumes "map_of kvs ''Properties'' = None" "Property_init n (JObj kvs) = Inr p"
  shows "\<exists>doc u r. map_of kvs ''Documentation'' = Some doc
    \<and> map_of kvs ''UpdateType'' = Some u
    \<and> u \<in> {JStr ''Immutable'', JStr ''Mutable'', JStr ''Conditional''}
    \<and> map_of kvs ''Required'' = Some r
    \<and> properties p = []
    \<and> members p =
        (let f = resolve_type
              ((members (Property_new n))
                 \<lparr>documentation := doc, priv_update_type := u, required := r\<rparr>) kvs
         in case map_of kvs ''DuplicatesAllowed'' of
              None \<Rightarrow> f | Some d \<Rightarrow> f\<lparr>duplicate_allowed := d\<rparr>)"
proof (cases "map_of kvs ''Documentation''")
  case None
  with assms show ?thesis by (simp add: Property_init_leaf)
next
  case doc: (Some doc)
  show ?thesis
  proof (cases "map_of kvs ''UpdateType''")
    case None
    with assms doc show ?thesis by (simp add: Property_init_leaf)
  next
    case u: (Some u)
    show ?thesis
    proof (cases "u \<in> {JStr ''Immutable'', JStr ''Mutable'', JStr ''Conditional''}")
      case False
      with assms doc u show ?thesis by (simp add: Property_init_leaf)
    next
      case valid: True
      show ?thesis
      proof (cases "map_of kvs ''Required''")
        case None
        with assms doc u valid show ?thesis by (auto simp add: Property_init_leaf)
      next
        case (Some r)
        have "Property_init n (JObj kvs) = Inr (Property_obj
            (let f = resolve_type
              ((members (Property_new n))
                 \<lparr>documentation := doc, priv_update_type := u, required := r\<rparr>) kvs
             in case map_of kvs ''DuplicatesAllowed'' of
              None \<Rightarrow> f | Some d \<Rightarrow> f\<lparr>duplicate_allowed := d\<rparr>) [])"
          using assms(1) doc u valid Some by (auto simp add: Property_init_leaf)
        with assms(2) doc u valid Some show ?thesis by auto
      qed
    qed
  qed
qed

lemma Property_init_container_Inr:
  assumes "map_of kvs ''Properties'' = Some sub" "Property_init n (JObj kvs) = Inr p"
  shows "\<exists>doc items. map_of kvs ''Documentation'' = Some doc \<and> sub = JObj items
    \<and> members p = (members (Property_new n))\<lparr>documentation := doc\<rparr>
    \<and> build_all Property_init [] items = Inr (properties p)"
proof (cases "map_of kvs ''Documentation''")
  case None
  with assms show ?thesis by (simp add: Property_init_container)
next
  case (Some doc)
  show ?thesis
  proof (cases "\<exists>items. sub = JObj items")
    case False
    then have "py_items sub = Inl AttributeError" by (cases sub) auto
    with assms Some show ?thesis by (simp add: Property_init_container)
  next
    case True
    then obtain items where items: "sub = JObj items" ..
    with assms Some show ?thesis
      by (cases "build_all Property_init [] items") (auto simp add: Property_init_container)
  qed
qed

lemma Property_init_shape:
  assumes "Property_init n d = Inr p"
  shows "name (members p) = n \<and> item_type (members p) = None
    \<and> primitive_item_type (members p) = None
    \<and> (primitive_type (members p) = None \<or> type (members p) = None)"
proof (cases "\<exists>kvs. d = JObj kvs")
  case False
  with assms show ?thesis by (simp add: Property_init_not_dict)
next
  case True
  then obtain kvs where d: "d = JObj kvs" ..
  show ?thesis
  proof (cases "map_of kvs ''Properties''")
    case None
    define R where "R doc u r = resolve_type
        ((members (Property_new n))\<lparr>documentation := doc, priv_update_type := u, required := r\<rparr>)
        kvs" for doc u r
    from Property_init_leaf_Inr [OF None assms [unfolded d]] obtain doc u r where
      p: "members p = R doc u r \<or> (\<exists>x. members p = (R doc u r)\<lparr>duplicate_allowed := x\<rparr>)"
      unfolding R_def Let_def by (fastforce split: option.splits)
    have "name (R doc u r) = n" "item_type (R doc u r) = None"
      "primitive_item_type (R doc u r) = None"
      by (simp_all add: R_def resolve_type_other Property_new_def)
    moreover have "primitive_type (R doc u r) = None \<or> type (R doc u r) = None"
      using resolve_type_one [of "(members (Property_new n))
          \<lparr>documentation := doc, priv_update_type := u, required := r\<rparr>" kvs]
      by (simp add: R_def Property_new_def)
    ultimately show ?thesis using p by auto
  next
    case (Some sub)
    from Property_init_container_Inr [OF Some assms [unfolded d]] obtain doc where
      "members p = (members (Property_new n))\<lparr>documentation := doc\<rparr>"
      by blast
    then show ?thesis by (simp add: Property_new_def)
  qed
qed

lemma Property_init_untyped:
  assumes "Property_init n (JObj kvs) = Inr p"
    "map_of kvs ''PrimitiveType'' = None" "map_of kvs ''Type'' = None"
  shows "primitive_type (members p) = None \<and> type (members p) = None"
proof (cases "map_of kvs ''Properties''")
  case None
  from Property_init_leaf_Inr [OF None assms(1)] assms(2,3) show ?thesis
    by (auto simp add: resolve_type_untyped Property_new_def Let_def split: option.splits)
next
  case (Some sub)
  from Property_init_container_Inr [OF Some assms(1)] show ?thesis
    by (auto simp add: Property_new_def)
qed

lemma Resource_init_dict:
  "Resource_init n (JObj kvs) =
    (case map_of kvs ''Documentation'' of
       None \<Rightarrow> Inl (KeyError ''Documentation'')
     | Some doc \<Rightarrow>
       (case map_of kvs ''Attributes'' of
          None \<Rightarrow> Inl (KeyError ''Attributes'')
        | Some attrs \<Rightarrow>
          (case py_items attrs of Inl e \<Rightarrow> Inl e
           | Inr attr_items \<Rightarrow>
             (case build_all Attribute_init [] attr_items of Inl e \<Rightarrow> Inl e
              | Inr al \<Rightarrow>
                (case map_of kvs ''Properties'' of
                   None \<Rightarrow> Inl (KeyError ''Properties'')
                 | Some props \<Rightarrow>
                   (case py_items props of Inl e \<Rightarrow> Inl e
                    | Inr prop_items \<Rightarrow>
                      (case build_all Property_init [] prop_items of Inl e \<Rightarrow> Inl e
                       | Inr pl \<Rightarrow>
                         Inr \<lparr>name_R = n, documentation_R = doc, attributes = al,
                              properties_R = pl\<rparr>)))))))"
  by (simp add: Resource_init_def Resource_parse_def Resource_parse_attributes_build
      Resource_parse_properties_build split: option.split sum.split)

lemma Property_init_leaf_valid:
  assumes "map_of kvs ''Properties'' = None" "map_of kvs ''Documentation'' = Some doc"
    "map_of kvs ''UpdateType'' = Some u"
    "u \<in> {JStr ''Immutable'', JStr ''Mutable'', JStr ''Conditional''}"
    "map_of kvs ''Required'' = Some r"
  shows "Property_init n (JObj kvs) =
    Inr (Property_obj
      (let f = resolve_type
            ((members (Property_new n))
               \<lparr>documentation := doc, priv_update_type := u, required := r\<rparr>) kvs
       in case map_of kvs ''DuplicatesAllowed'' of
            None \<Rightarrow> f | Some d \<Rightarrow> f\<lparr>duplicate_allowed := d\<rparr>)
      [])"
  using assms by (auto simp add: Property_init_leaf)

lemma resolve_type_Property_fields:
  fixes self :: Property_fields
  shows "documentation (resolve_type self kvs) = documentation self"
    "duplicate_allowed (resolve_type self kvs) = duplicate_allowed self"
    "required (resolve_type self kvs) = required self"
    "priv_update_type (resolve_type self kvs) = priv_update_type self"
  unfolding resolve_type_def by (simp_all split: option.split)

lemma Property_init_fails_leaf:
  assumes "map_of kvs ''Properties'' = None"
  shows "fails (Property_init n (JObj kvs)) \<longleftrightarrow>
    map_of kvs ''Documentation'' = None \<or> map_of kvs ''Required'' = None
    \<or> map_of kvs ''UpdateType''
         \<notin> Some ` {JStr ''Immutable'', JStr ''Mutable'', JStr ''Conditional''}"
  using assms
  by (auto simp add: Property_init_leaf fails_def split: option.splits)

lemma Property_init_nested_fails:
  assumes "map_of kvs ''Properties'' = Some (JObj items)" "(k, v) \<in> set items"
    "fails (Property_init k v)"
  shows "fails (Property_init n (JObj kvs))"
proof -
  from assms(2,3) have "fails (build_all Property_init [] items)"
    using build_all_fails [of "(k, v)" items Property_init "[]"] by simp
  with assms(1) show ?thesis
    by (auto simp add: Property_init_container fails_def split: option.splits sum.splits)
qed

lemma Resource_init_nested_fails:
  assumes "map_of kvs ''Properties'' = Some (JObj items)" "(k, v) \<in> set items"
    "fails (Property_init k v)"
  shows "fails (Resource_init n (JObj kvs))"
proof -
  from assms(2,3) have "fails (build_all Property_init [] items)"
    using build_all_fails [of "(k, v)" items Property_init "[]"] by simp
  with assms(1) show ?thesis
    by (auto simp add: Resource_init_dict fails_def split: option.splits sum.splits)
qed

lemma Property_init_no_Documentation:
  assumes "map_of kvs ''Documentation'' = None"
  shows "Property_init n (JObj kvs) = Inl (KeyError ''Documentation'')"
proof (cases "map_of kvs ''Properties''")
  case None
  with assms show ?thesis by (simp add: Property_init_leaf)
next
  case (Some sub)
  with assms show ?thesis by (simp add: Property_init_container)
qed

lemma build_all_empty_distinct:
  assumes "build_all f [] items = Inr out" "distinct (map fst items)"
  shows "built_from f items out"
  using build_all_distinct [OF assms] by simp

lemma built_from_length: "built_from f items out \<Longrightarrow> length out = length items"
  unfolding built_from_def by (simp add: list_all2_lengthD)

lemma build_all_not_fails:
  assumes "build_all f acc items = Inr out" "kv \<in> set items"
  shows "\<not> fails (f (fst kv) (snd kv))"
  using build_all_Inr [OF assms] by (auto simp add: fails_def)

lemma py_items_Inr: "py_items d = Inr items \<Longrightarrow> d = JObj items"
  by (cases d) auto

lemma Resource_init_not_dict: "\<forall>kvs. d \<noteq> JObj kvs \<Longrightarrow> Resource_init n d = Inl TypeError"
  by (cases d) (simp_all add: Resource_init_def Resource_parse_def)

lemma Resource_init_Inr:
  assumes "Resource_init n d = Inr r"
  shows "\<exists>kvs as ps. d = JObj kvs
    \<and> map_of kvs ''Documentation'' = Some (documentation_R r)
    \<and> map_of kvs ''Attributes'' = Some (JObj as)
    \<and> map_of kvs ''Properties'' = Some (JObj ps)
    \<and> name_R r = n
    \<and> build_all Attribute_init [] as = Inr (attributes r)
    \<and> build_all Property_init [] ps = Inr (properties_R r)"
proof (cases "\<exists>kvs. d = JObj kvs")
  case False
  with assms show ?thesis by (simp add: Resource_init_not_dict)
next
  case True
  then obtain kvs where d: "d = JObj kvs" ..
  from assms [unfolded d Resource_init_dict]
  obtain doc attrs as al props ps pl where
    "map_of kvs ''Documentation'' = Some doc" "map_of kvs ''Attributes'' = Some attrs"
    "py_items attrs = Inr as" "build_all Attribute_init [] as = Inr al"
    "map_of kvs ''Properties'' = Some props" "py_items props = Inr ps"
    "build_all Property_init [] ps = Inr pl"
    "r = \<lparr>name_R = n, documentation_R = doc, attributes = al, properties_R = pl\<rparr>"
    by (auto split: option.splits sum.splits)
  with d show ?thesis by (auto dest: py_items_Inr)
qed

lemma Property_init_Inr:
  assumes "Property_init n d = Inr p"
  shows "\<exists>kvs. d = JObj kvs
    \<and> map_of kvs ''Documentation'' = Some (documentation (members p))
    \<and> name (members p) = n
    \<and> (case map_of kvs ''Properties'' of
          Some sub \<Rightarrow>
            (\<exists>items. sub = JObj items
               \<and> build_all Property_init [] items = Inr (properties p))
        | None \<Rightarrow>
            map_of kvs ''UpdateType'' = Some (update_type p)
            \<and> update_type p \<in> {JStr ''Immutable'', JStr ''Mutable'', JStr ''Conditional''}
            \<and> map_of kvs ''Required'' = Some (required (members p))
            \<and> properties p = [])"
proof (cases "\<exists>kvs. d = JObj kvs")
  case False
  with assms show ?thesis by (simp add: Property_init_not_dict)
next
  case True
  then obtain kvs where d: "d = JObj kvs" ..
  note init = assms [unfolded d]
  have nm: "name (members p) = n"
    using assms by (simp add: Property_init_shape)
  show ?thesis
  proof (cases "map_of kvs ''Properties''")
    case None
    from Property_init_leaf_Inr [OF None init] obtain doc u r where
      "map_of kvs ''Documentation'' = Some doc" "map_of kvs ''UpdateType'' = Some u"
      "u \<in> {JStr ''Immutable'', JStr ''Mutable'', JStr ''Conditional''}"
      "map_of kvs ''Required'' = Some r" "properties p = []"
      and m: "members p =
        (let f = resolve_type
              ((members (Property_new n))
                 \<lparr>documentation := doc, priv_update_type := u, required := r\<rparr>) kvs
         in case map_of kvs ''DuplicatesAllowed'' of
              None \<Rightarrow> f | Some d \<Rightarrow> f\<lparr>duplicate_allowed := d\<rparr>)"
      by blast
    moreover from m have "documentation (members p) = doc" "update_type p = u"
      "required (members p) = r"
      by (simp_all add: Let_def update_type_def resolve_type_Property_fields
          split: option.split)
    ultimately show ?thesis using d None nm by simp
  next
    case (Some sub)
    from Property_init_container_Inr [OF Some init] obtain doc items where
      "map_of kvs ''Documentation'' = Some doc" "sub = JObj items"
      "members p = (members (Property_new n))\<lparr>documentation := doc\<rparr>"
      "build_all Property_init [] items = Inr (properties p)"
      by blast
    then show ?thesis using d Some nm by simp
  qed
qed

lemma Property_init_Inl_container:
  assumes "Property_init n (JObj kvs) = Inl e" "map_of kvs ''Documentation'' \<noteq> None"
    "map_of kvs ''Properties'' = Some (JObj items)"
  shows "\<exists>kv \<in> set items. Property_init (fst kv) (snd kv) = Inl e"
proof -
  from assms have "build_all Property_init [] items = Inl e"
    by (cases "build_all Property_init [] items")
      (auto simp add: Property_init_container)
  then show ?thesis by (rule build_all_Inl)
qed

lemma Resource_init_Inl:
  assumes "Resource_init n (JObj kvs) = Inl e" "map_of kvs ''Documentation'' \<noteq> None"
    "map_of kvs ''Attributes'' = Some (JObj as)" "map_of kvs ''Properties'' = Some (JObj ps)"
  shows "(\<exists>kv \<in> set as. Attribute_init (fst kv) (snd kv) = Inl e)
    \<or> (\<exists>kv \<in> set ps. Property_init (fst kv) (snd kv) = Inl e)"
proof -
  from assms have "build_all Attribute_init [] as = Inl e
    \<or> build_all Property_init [] ps = Inl e"
    by (cases "build_all Attribute_init [] as"; cases "build_all Property_init [] ps")
      (auto simp add: Resource_init_dict)
  then show ?thesis by (blast dest: build_all_Inl)
qed

lemma Attribute_init_Inr:
  assumes "Attribute_init n d = Inr a"
  shows "a = (case d of JObj kvs \<Rightarrow> resolve_type (Attribute_new n) kvs | _ \<Rightarrow> Attribute_new n)"
proof (cases "\<exists>kvs. d = JObj kvs")
  case True
  with assms show ?thesis by (auto simp add: Attribute_init_dict)
next
  case False
  with assms have "a = Attribute_new n"
    unfolding Attribute_init_def by (auto dest: Attribute_parse_not_dict)
  with False show ?thesis by (cases d) simp_all
qed

lemma Property_init_leaf_fields:
  assumes "map_of kvs ''Properties'' = None" "Property_init n (JObj kvs) = Inr p"
  shows "primitive_type (members p) = primitive_type (resolve_type (Attribute_new n) kvs)
    \<and> type (members p) = type (resolve_type (Attribute_new n) kvs)
    \<and> duplicate_allowed (members p)
        = (case map_of kvs ''DuplicatesAllowed'' of None \<Rightarrow> JNull | Some x \<Rightarrow> x)"
proof -
  from Property_init_leaf_Inr [OF assms] obtain doc u r where
    m: "members p =
        (let f = resolve_type
              ((members (Property_new n))
                 \<lparr>documentation := doc, priv_update_type := u, required := r\<rparr>) kvs
         in case map_of kvs ''DuplicatesAllowed'' of
              None \<Rightarrow> f | Some d \<Rightarrow> f\<lparr>duplicate_allowed := d\<rparr>)"
    by blast
  define base where "base =
    (members (Property_new n))\<lparr>documentation := doc, priv_update_type := u, required := r\<rparr>"
  have types: "primitive_type (resolve_type base kvs)
      = primitive_type (resolve_type (Attribute_new n) kvs)"
    "type (resolve_type base kvs) = type (resolve_type (Attribute_new n) kvs)"
    by (rule resolve_type_cong; simp add: base_def Property_new_def Attribute_new_def)+
  have dup: "duplicate_allowed (resolve_type base kvs) = JNull"
    by (simp add: resolve_type_Property_fields base_def Property_new_def)
  have "members p = (case map_of kvs ''DuplicatesAllowed'' of
      None \<Rightarrow> resolve_type base kvs
    | Some d \<Rightarrow> (resolve_type base kvs)\<lparr>duplicate_allowed := d\<rparr>)"
    unfolding base_def using m by (simp only: Let_def)
  with types dup show ?thesis
    by (simp split: option.split)
qed

lemma Property_init_container_fields:
  assumes "map_of kvs ''Properties'' = Some sub" "Property_init n (JObj kvs) = Inr p"
  shows "primitive_type (members p) = None \<and> type (members p) = None
    \<and> duplicate_allowed (members p) = JNull \<and> required (members p) = JNull
    \<and> update_type p = JNull"
proof -
  from Property_init_container_Inr [OF assms] obtain doc where
    "members p = (members (Property_new n))\<lparr>documentation := doc\<rparr>"
    by blast
  then show ?thesis by (simp add: Property_new_def update_type_def)
qed

section \<open>The claims\<close>

text \<open>
  C1. For every definition dict, the type resolution of an Attribute follows a fixed
  precedence. A \<^verbatim>\<open>PrimitiveType\<close> key sets \<open>primitive_type\<close> to the primitive
  type of its value and leaves \<open>type\<close> unset, whatever \<^verbatim>\<open>Type\<close> says. Otherwise
  \<^verbatim>\<open>Type = "List"\<close> (compared exactly) gives a list type of the primitive
  \<^verbatim>\<open>PrimitiveItemType\<close> when that key is present, else of the subproperty
  \<^verbatim>\<open>ItemType\<close> when that one is; \<^verbatim>\<open>Type = "Map"\<close> does the same with a map type;
  any other value of \<^verbatim>\<open>Type\<close> gives a direct subproperty reference to that value.
  Each branch determines the whole object: all other fields keep their initial value.
\<close>

theorem Attribute_type_precedence:
  "(\<forall>v. map_of kvs ''PrimitiveType'' = Some v \<longrightarrow>
      Attribute_init n (JObj kvs)
        = Inr ((Attribute_new n)\<lparr>primitive_type := Some (PrimitiveType v)\<rparr>))
   \<and> (map_of kvs ''PrimitiveType'' = None \<and> map_of kvs ''Type'' = Some (JStr ''List'') \<longrightarrow>
      (\<forall>x. map_of kvs ''PrimitiveItemType'' = Some x \<longrightarrow>
         Attribute_init n (JObj kvs)
           = Inr ((Attribute_new n)\<lparr>type := Some (ListType (PrimitiveType x))\<rparr>))
      \<and> (\<forall>y. map_of kvs ''PrimitiveItemType'' = None \<and> map_of kvs ''ItemType'' = Some y \<longrightarrow>
         Attribute_init n (JObj kvs)
           = Inr ((Attribute_new n)\<lparr>type := Some (ListType (Subproperty y))\<rparr>)))
   \<and> (map_of kvs ''PrimitiveType'' = None \<and> map_of kvs ''Type'' = Some (JStr ''Map'') \<longrightarrow>
      (\<forall>x. map_of kvs ''PrimitiveItemType'' = Some x \<longrightarrow>
         Attribute_init n (JObj kvs)
           = Inr ((Attribute_new n)\<lparr>type := Some (MapType (PrimitiveType x))\<rparr>))
      \<and> (\<forall>y. map_of kvs ''PrimitiveItemType'' = None \<and> map_of kvs ''ItemType'' = Some y \<longrightarrow>
         Attribute_init n (JObj kvs)
           = Inr ((Attribute_new n)\<lparr>type := Some (MapType (Subproperty y))\<rparr>)))
   \<and> (\<forall>t. map_of kvs ''PrimitiveType'' = None \<and> map_of kvs ''Type'' = Some t
          \<and> t \<noteq> JStr ''List'' \<and> t \<noteq> JStr ''Map'' \<longrightarrow>
      Attribute_init n (JObj kvs) = Inr ((Attribute_new n)\<lparr>type := Some (Subproperty t)\<rparr>))
   \<and> primitive_type (Attribute_new n) = None \<and> type (Attribute_new n) = None"
  by (simp add: Attribute_init_dict resolve_type_def Attribute_new_def)

text \<open>The precedence on four definitions: a primitive type next to \<^verbatim>\<open>Type\<close>, a list
  with both item keys, a map of a subproperty, and \<^verbatim>\<open>"list"\<close> in lower case, which is a
  subproperty reference.\<close>

theorem Attribute_type_precedence_witness:
  "Attribute_init ''Arn'' (JObj [(''Type'', JStr ''List''), (''PrimitiveType'', JStr ''String'')])
     = Inr \<lparr>name = ''Arn'', item_type = None, primitive_item_type = None,
            primitive_type = Some (PrimitiveType (JStr ''String'')), type = None\<rparr>
   \<and> Attribute_init ''Ids'' (JObj [(''Type'', JStr ''List''), (''ItemType'', JStr ''Tag''),
          (''PrimitiveItemType'', JStr ''String'')])
     = Inr \<lparr>name = ''Ids'', item_type = None, primitive_item_type = None,
            primitive_type = None, type = Some (ListType (PrimitiveType (JStr ''String'')))\<rparr>
   \<and> Attribute_init ''Tags'' (JObj [(''Type'', JStr ''Map''), (''ItemType'', JStr ''Tag'')])
     = Inr \<lparr>name = ''Tags'', item_type = None, primitive_item_type = None,
            primitive_type = None, type = Some (MapType (Subproperty (JStr ''Tag'')))\<rparr>
   \<and> Attribute_init ''L'' (JObj [(''Type'', JStr ''list''), (''ItemType'', JStr ''Tag'')])
     = Inr \<lparr>name = ''L'', item_type = None, primitive_item_type = None,
            primitive_type = None, type = Some (Subproperty (JStr ''list''))\<rparr>"
  using
    Attribute_type_precedence
      [of "[(''Type'', JStr ''List''), (''PrimitiveType'', JStr ''String'')]" "''Arn''"]
    Attribute_type_precedence
      [of "[(''Type'', JStr ''List''), (''ItemType'', JStr ''Tag''),
            (''PrimitiveItemType'', JStr ''String'')]" "''Ids''"]
    Attribute_type_precedence
      [of "[(''Type'', JStr ''Map''), (''ItemType'', JStr ''Tag'')]" "''Tags''"]
    Attribute_type_precedence
      [of "[(''Type'', JStr ''list''), (''ItemType'', JStr ''Tag'')]" "''L''"]
  by (simp add: Attribute_new_def)

text \<open>
  C6. The type resolution of an Attribute raises no error on any definition dict. A
  \<^verbatim>\<open>List\<close> or \<^verbatim>\<open>Map\<close> declaration with neither item key, and a definition with
  neither \<^verbatim>\<open>PrimitiveType\<close> nor \<^verbatim>\<open>Type\<close>, are built with \<open>primitive_type\<close> and
  \<open>type\<close> both unset.
\<close>

theorem Attribute_never_raises:
  "(\<exists>a. Attribute_init n (JObj kvs) = Inr a)
   \<and> (map_of kvs ''PrimitiveType'' = None
        \<and> (map_of kvs ''Type'' = Some (JStr ''List'') \<or> map_of kvs ''Type'' = Some (JStr ''Map''))
        \<and> map_of kvs ''PrimitiveItemType'' = None \<and> map_of kvs ''ItemType'' = None \<longrightarrow>
      (\<exists>a. Attribute_init n (JObj kvs) = Inr a \<and> primitive_type a = None \<and> type a = None))
   \<and> (map_of kvs ''PrimitiveType'' = None \<and> map_of kvs ''Type'' = None \<longrightarrow>
      (\<exists>a. Attribute_init n (JObj kvs) = Inr a \<and> primitive_type a = None \<and> type a = None))"
  by (auto simp add: Attribute_init_dict resolve_type_def Attribute_new_def)

text \<open>An incomplete list, an incomplete map beside an unrelated key, and the
  empty definition dict.\<close>

theorem Attribute_never_raises_witness:
  "(\<exists>a. Attribute_init ''A'' (JObj [(''Type'', JStr ''List'')]) = Inr a
        \<and> primitive_type a = None \<and> type a = None)
   \<and> (\<exists>a. Attribute_init ''B'' (JObj [(''Type'', JStr ''Map''), (''Other'', JInt 1)]) = Inr a
        \<and> primitive_type a = None \<and> type a = None)
   \<and> (\<exists>a. Attribute_init ''C'' (JObj []) = Inr a \<and> primitive_type a = None \<and> type a = None)"
  using
    Attribute_never_raises [of "''A''" "[(''Type'', JStr ''List'')]"]
    Attribute_never_raises [of "''B''" "[(''Type'', JStr ''Map''), (''Other'', JInt 1)]"]
    Attribute_never_raises [of "''C''" "[]"]
  by simp

text \<open>
  C8. Every Attribute and every Property that a constructor returns has at most one of
  \<open>primitive_type\<close> and \<open>type\<close> set, for any value passed as the definition; and when
  a definition dict has neither a \<^verbatim>\<open>PrimitiveType\<close> nor a \<^verbatim>\<open>Type\<close> key, both are
  unset.
\<close>

theorem at_most_one_type_field:
  "(Attribute_init n d = Inr a \<longrightarrow> primitive_type a = None \<or> type a = None)
   \<and> (Property_init n d = Inr p \<longrightarrow>
        primitive_type (members p) = None \<or> type (members p) = None)
   \<and> (map_of kvs ''PrimitiveType'' = None \<and> map_of kvs ''Type'' = None \<longrightarrow>
        (Attribute_init n (JObj kvs) = Inr a \<longrightarrow> primitive_type a = None \<and> type a = None)
      \<and> (Property_init n (JObj kvs) = Inr p \<longrightarrow>
           primitive_type (members p) = None \<and> type (members p) = None))"
proof (intro conjI impI)
  assume "Attribute_init n d = Inr a"
  then show "primitive_type a = None \<or> type a = None"
    by (simp add: Attribute_init_shape)
next
  assume "Property_init n d = Inr p"
  then show "primitive_type (members p) = None \<or> type (members p) = None"
    by (simp add: Property_init_shape)
next
  assume *: "map_of kvs ''PrimitiveType'' = None \<and> map_of kvs ''Type'' = None"
  {
    assume "Attribute_init n (JObj kvs) = Inr a"
    with * have "a = Attribute_new n"
      by (simp add: Attribute_init_dict resolve_type_untyped)
    then show "primitive_type a = None" "type a = None"
      by (simp_all add: Attribute_new_def)
  }
  {
    assume "Property_init n (JObj kvs) = Inr p"
    with * show "primitive_type (members p) = None" "type (members p) = None"
      by (simp_all add: Property_init_untyped)
  }
qed

text \<open>A list attribute, a property whose \<^verbatim>\<open>PrimitiveType\<close> wins over its
  \<^verbatim>\<open>Type\<close>, and an attribute and a property with neither key.\<close>

theorem at_most_one_type_field_witness:
  "Attribute_init ''Tags'' (JObj [(''Type'', JStr ''List''), (''ItemType'', JStr ''Tag'')])
     = Inr \<lparr>name = ''Tags'', item_type = None, primitive_item_type = None,
            primitive_type = None, type = Some (ListType (Subproperty (JStr ''Tag'')))\<rparr>
   \<and> Property_init ''Size''
       (JObj [(''Documentation'', JStr ''d''), (''PrimitiveType'', JStr ''Integer''),
              (''Type'', JStr ''List''), (''UpdateType'', JStr ''Mutable''),
              (''Required'', JBool True)])
     = Inr (Property_obj
         \<lparr>name = ''Size'', item_type = None, primitive_item_type = None,
          primitive_type = Some (PrimitiveType (JStr ''Integer'')), type = None,
          documentation = JStr ''d'', duplicate_allowed = JNull, required = JBool True,
          priv_update_type = JStr ''Mutable''\<rparr> [])
   \<and> Attribute_init ''X'' (JObj [(''ItemType'', JStr ''Tag'')])
     = Inr \<lparr>name = ''X'', item_type = None, primitive_item_type = None,
            primitive_type = None, type = None\<rparr>
   \<and> Property_init ''Y''
       (JObj [(''Documentation'', JStr ''d''), (''UpdateType'', JStr ''Immutable''),
              (''Required'', JBool False)])
     = Inr (Property_obj
         \<lparr>name = ''Y'', item_type = None, primitive_item_type = None,
          primitive_type = None, type = None,
          documentation = JStr ''d'', duplicate_allowed = JNull, required = JBool False,
          priv_update_type = JStr ''Immutable''\<rparr> [])"
  using
    at_most_one_type_field
      [of "''Tags''" "JObj [(''Type'', JStr ''List''), (''ItemType'', JStr ''Tag'')]"
          "\<lparr>name = ''Tags'', item_type = None, primitive_item_type = None,
            primitive_type = None, type = Some (ListType (Subproperty (JStr ''Tag'')))\<rparr>"]
  by (simp add: Attribute_init_dict resolve_type_def Attribute_new_def Property_init_leaf
      Property_new_def)

text \<open>
  C10. In every Attribute and Property that a constructor returns, \<open>item_type\<close> and
  \<open>primitive_item_type\<close> are \<^verbatim>\<open>None\<close>: no branch of \<^verbatim>\<open>parse\<close> assigns them. The
  item type of a list or map is found only inside the \<open>ListType\<close> or \<open>MapType\<close> stored
  in \<open>type\<close>.
\<close>

theorem item_fields_unset:
  "(Attribute_init n d = Inr a \<longrightarrow> item_type a = None \<and> primitive_item_type a = None)
   \<and> (Property_init n d = Inr p \<longrightarrow>
        item_type (members p) = None \<and> primitive_item_type (members p) = None)
   \<and> (map_of kvs ''PrimitiveType'' = None
        \<and> (map_of kvs ''Type'' = Some (JStr ''List'') \<or> map_of kvs ''Type'' = Some (JStr ''Map''))
        \<and> (map_of kvs ''PrimitiveItemType'' \<noteq> None \<or> map_of kvs ''ItemType'' \<noteq> None) \<longrightarrow>
        (\<exists>a i. Attribute_init n (JObj kvs) = Inr a
           \<and> (type a = Some (ListType i) \<or> type a = Some (MapType i))
           \<and> item_type a = None \<and> primitive_item_type a = None))"
proof (intro conjI impI)
  assume "Attribute_init n d = Inr a"
  then show "item_type a = None" "primitive_item_type a = None"
    by (simp_all add: Attribute_init_shape)
next
  assume "Property_init n d = Inr p"
  then show "item_type (members p) = None" "primitive_item_type (members p) = None"
    by (simp_all add: Property_init_shape)
next
  assume "map_of kvs ''PrimitiveType'' = None
        \<and> (map_of kvs ''Type'' = Some (JStr ''List'') \<or> map_of kvs ''Type'' = Some (JStr ''Map''))
        \<and> (map_of kvs ''PrimitiveItemType'' \<noteq> None \<or> map_of kvs ''ItemType'' \<noteq> None)"
  then show "\<exists>a i. Attribute_init n (JObj kvs) = Inr a
           \<and> (type a = Some (ListType i) \<or> type a = Some (MapType i))
           \<and> item_type a = None \<and> primitive_item_type a = None"
    by (auto simp add: Attribute_init_dict resolve_type_def Attribute_new_def
        split: option.splits)
qed

text \<open>A list of strings as an attribute and a map of tags as a property.\<close>

theorem item_fields_unset_witness:
  "Attribute_init ''Ids''
       (JObj [(''Type'', JStr ''List''), (''PrimitiveItemType'', JStr ''String'')])
     = Inr \<lparr>name = ''Ids'', item_type = None, primitive_item_type = None,
            primitive_type = None, type = Some (ListType (PrimitiveType (JStr ''String'')))\<rparr>
   \<and> Property_init ''Tags''
       (JObj [(''Documentation'', JStr ''d''), (''Type'', JStr ''Map''),
              (''ItemType'', JStr ''Tag''), (''UpdateType'', JStr ''Mutable''),
              (''Required'', JBool True)])
     = Inr (Property_obj
         \<lparr>name = ''Tags'', item_type = None, primitive_item_type = None,
          primitive_type = None, type = Some (MapType (Subproperty (JStr ''Tag''))),
          documentation = JStr ''d'', duplicate_allowed = JNull, required = JBool True,
          priv_update_type = JStr ''Mutable''\<rparr> [])"
  using
    item_fields_unset
      [of "''Ids''" "JObj [(''Type'', JStr ''List''), (''PrimitiveItemType'', JStr ''String'')]"
          "\<lparr>name = ''Ids'', item_type = None, primitive_item_type = None,
            primitive_type = None, type = Some (ListType (PrimitiveType (JStr ''String'')))\<rparr>"]
  by (simp add: Attribute_init_dict resolve_type_def Attribute_new_def Property_init_leaf
      Property_new_def)

text \<open>
  C5. For every property definition without a \<^verbatim>\<open>Properties\<close> key that has
  \<^verbatim>\<open>Documentation\<close>, a valid \<^verbatim>\<open>UpdateType\<close> and a \<^verbatim>\<open>Required\<close> value, the
  Property is constructed, and it has \<open>required\<close> equal to the \<^verbatim>\<open>Required\<close> value,
  \<open>documentation\<close> equal to the \<^verbatim>\<open>Documentation\<close> value, \<open>update_type\<close> equal to
  the \<^verbatim>\<open>UpdateType\<close> value, \<open>primitive_type\<close> and \<open>type\<close> as the Attribute built
  from the same definition has them, and \<open>duplicate_allowed\<close> equal to the
  \<^verbatim>\<open>DuplicatesAllowed\<close> value when the key is present and \<^verbatim>\<open>None\<close>, which is not
  \<^verbatim>\<open>False\<close>, when it is absent.
\<close>

theorem Property_leaf_fields:
  assumes "map_of kvs ''Properties'' = None"
    and "map_of kvs ''Documentation'' = Some doc"
    and "map_of kvs ''UpdateType'' = Some u"
    and "u \<in> {JStr ''Immutable'', JStr ''Mutable'', JStr ''Conditional''}"
    and "map_of kvs ''Required'' = Some r"
  shows "\<exists>p a. Property_init n (JObj kvs) = Inr p \<and> Attribute_init n (JObj kvs) = Inr a
    \<and> required (members p) = r
    \<and> documentation (members p) = doc
    \<and> update_type p = u
    \<and> primitive_type (members p) = primitive_type a
    \<and> type (members p) = type a
    \<and> (\<forall>d. map_of kvs ''DuplicatesAllowed'' = Some d \<longrightarrow> duplicate_allowed (members p) = d)
    \<and> (map_of kvs ''DuplicatesAllowed'' = None \<longrightarrow>
         duplicate_allowed (members p) = JNull \<and> duplicate_allowed (members p) \<noteq> JBool False)
    \<and> properties p = []"
proof -
  define base where "base =
    (members (Property_new n))\<lparr>documentation := doc, priv_update_type := u, required := r\<rparr>"
  define f where "f = resolve_type base kvs"
  define p where "p = Property_obj
    (case map_of kvs ''DuplicatesAllowed'' of None \<Rightarrow> f | Some d \<Rightarrow> f\<lparr>duplicate_allowed := d\<rparr>) []"
  have init: "Property_init n (JObj kvs) = Inr p"
    unfolding p_def f_def base_def
    using Property_init_leaf_valid [OF assms, of n] by (simp only: Let_def)
  have more: "Attribute.more f = Attribute.more base"
    by (simp add: f_def resolve_type_other)
  have f_fields: "required f = r" "documentation f = doc" "priv_update_type f = u"
    "duplicate_allowed f = JNull"
    using more unfolding base_def Property_new_def
    by (cases f, simp)+
  have types: "primitive_type f = primitive_type (resolve_type (Attribute_new n) kvs)"
    "type f = type (resolve_type (Attribute_new n) kvs)"
    unfolding f_def
    by (rule resolve_type_cong; simp add: base_def Property_new_def Attribute_new_def)+
  have "required (members p) = r" "documentation (members p) = doc" "update_type p = u"
    "primitive_type (members p) = primitive_type (resolve_type (Attribute_new n) kvs)"
    "type (members p) = type (resolve_type (Attribute_new n) kvs)"
    "\<forall>d. map_of kvs ''DuplicatesAllowed'' = Some d \<longrightarrow> duplicate_allowed (members p) = d"
    "map_of kvs ''DuplicatesAllowed'' = None \<longrightarrow>
       duplicate_allowed (members p) = JNull \<and> duplicate_allowed (members p) \<noteq> JBool False"
    "properties p = []"
    using f_fields types by (auto simp add: p_def update_type_def split: option.splits)
  with init show ?thesis
    by (simp add: Attribute_init_dict)
qed

text \<open>The scenario of the spec: a required, mutable list of strings with no
  \<^verbatim>\<open>DuplicatesAllowed\<close> key.\<close>

theorem Property_leaf_fields_witness:
  "\<exists>p. Property_init ''Names''
       (JObj [(''Documentation'', JStr ''d''), (''Type'', JStr ''List''),
              (''PrimitiveItemType'', JStr ''String''), (''UpdateType'', JStr ''Mutable''),
              (''Required'', JBool True)]) = Inr p
     \<and> required (members p) = JBool True
     \<and> documentation (members p) = JStr ''d''
     \<and> update_type p = JStr ''Mutable''
     \<and> primitive_type (members p) = None
     \<and> type (members p) = Some (ListType (PrimitiveType (JStr ''String'')))
     \<and> duplicate_allowed (members p) = JNull"
  using Property_leaf_fields
    [of "[(''Documentation'', JStr ''d''), (''Type'', JStr ''List''),
          (''PrimitiveItemType'', JStr ''String''), (''UpdateType'', JStr ''Mutable''),
          (''Required'', JBool True)]"
        "JStr ''d''" "JStr ''Mutable''" "JBool True" "''Names''"]
  by (auto simp add: Attribute_init_dict resolve_type_def Attribute_new_def)

text \<open>
  C3, as the code has it. For every property definition without a \<^verbatim>\<open>Properties\<close> key
  that has \<^verbatim>\<open>Documentation\<close>: an \<^verbatim>\<open>UpdateType\<close> value outside Immutable, Mutable
  and Conditional makes the construction fail with the \<^verbatim>\<open>ValueError\<close> that carries the
  offending value, and no Property is returned; when the definition also has
  \<^verbatim>\<open>Required\<close>, each of the three valid values makes the construction succeed, and
  \<open>update_type\<close> returns the value unchanged.
\<close>

theorem update_type_validation:
  assumes "map_of kvs ''Properties'' = None"
    and "map_of kvs ''Documentation'' = Some doc"
    and "map_of kvs ''UpdateType'' = Some u"
  shows "(u \<notin> {JStr ''Immutable'', JStr ''Mutable'', JStr ''Conditional''} \<longrightarrow>
            Property_init n (JObj kvs) = Inl (ValueError ''Invalid update type: %s'' u))
    \<and> (u \<in> {JStr ''Immutable'', JStr ''Mutable'', JStr ''Conditional''}
          \<and> map_of kvs ''Required'' \<noteq> None \<longrightarrow>
            (\<exists>p. Property_init n (JObj kvs) = Inr p \<and> update_type p = u))"
proof (intro conjI impI)
  assume "u \<notin> {JStr ''Immutable'', JStr ''Mutable'', JStr ''Conditional''}"
  with assms show "Property_init n (JObj kvs) = Inl (ValueError ''Invalid update type: %s'' u)"
    by (simp add: Property_init_leaf)
next
  assume "u \<in> {JStr ''Immutable'', JStr ''Mutable'', JStr ''Conditional''}
    \<and> map_of kvs ''Required'' \<noteq> None"
  then obtain r where valid: "u \<in> {JStr ''Immutable'', JStr ''Mutable'', JStr ''Conditional''}"
    and r: "map_of kvs ''Required'' = Some r" by auto
  show "\<exists>p. Property_init n (JObj kvs) = Inr p \<and> update_type p = u"
    by (simp add: Property_init_leaf_valid [OF assms valid r] update_type_def Let_def
        resolve_type_Property_fields split: option.split)
qed

text \<open>Two rejected values, one of them a valid name in lower case, and the three
  accepted ones.\<close>

theorem update_type_validation_witness:
  "Property_init ''P''
      (JObj [(''Documentation'', JStr ''d''), (''UpdateType'', JStr ''Foo''),
             (''Required'', JBool True)])
     = Inl (ValueError ''Invalid update type: %s'' (JStr ''Foo''))
   \<and> Property_init ''P''
      (JObj [(''Documentation'', JStr ''d''), (''UpdateType'', JStr ''mutable'')])
     = Inl (ValueError ''Invalid update type: %s'' (JStr ''mutable''))
   \<and> (\<exists>p. Property_init ''P''
      (JObj [(''Documentation'', JStr ''d''), (''UpdateType'', JStr ''Immutable''),
             (''Required'', JBool True)]) = Inr p \<and> update_type p = JStr ''Immutable'')
   \<and> (\<exists>p. Property_init ''P''
      (JObj [(''Documentation'', JStr ''d''), (''UpdateType'', JStr ''Mutable''),
             (''Required'', JBool True)]) = Inr p \<and> update_type p = JStr ''Mutable'')
   \<and> (\<exists>p. Property_init ''P''
      (JObj [(''Documentation'', JStr ''d''), (''UpdateType'', JStr ''Conditional''),
             (''Required'', JBool True)]) = Inr p \<and> update_type p = JStr ''Conditional'')"
  using
    update_type_validation
      [of "[(''Documentation'', JStr ''d''), (''UpdateType'', JStr ''Foo''),
            (''Required'', JBool True)]" "JStr ''d''" "JStr ''Foo''" "''P''"]
    update_type_validation
      [of "[(''Documentation'', JStr ''d''), (''UpdateType'', JStr ''mutable'')]"
          "JStr ''d''" "JStr ''mutable''" "''P''"]
    update_type_validation
      [of "[(''Documentation'', JStr ''d''), (''UpdateType'', JStr ''Immutable''),
            (''Required'', JBool True)]" "JStr ''d''" "JStr ''Immutable''" "''P''"]
    update_type_validation
      [of "[(''Documentation'', JStr ''d''), (''UpdateType'', JStr ''Mutable''),
            (''Required'', JBool True)]" "JStr ''d''" "JStr ''Mutable''" "''P''"]
    update_type_validation
      [of "[(''Documentation'', JStr ''d''), (''UpdateType'', JStr ''Conditional''),
            (''Required'', JBool True)]" "JStr ''d''" "JStr ''Conditional''" "''P''"]
  by simp

text \<open>C3 as stated fails without the two other mandatory keys: \<^verbatim>\<open>Documentation\<close> is read
  before \<^verbatim>\<open>UpdateType\<close>, so its absence is the error raised, and it does not name the
  offending value; and a valid \<^verbatim>\<open>UpdateType\<close> without \<^verbatim>\<open>Required\<close> does not
  succeed.\<close>

theorem update_type_validation_counterexample:
  "map_of [(''UpdateType'', JStr ''Foo'')] ''Properties'' = None
   \<and> Property_init ''P'' (JObj [(''UpdateType'', JStr ''Foo'')])
       = Inl (KeyError ''Documentation'')
   \<and> map_of [(''Documentation'', JStr ''d''), (''UpdateType'', JStr ''Mutable'')] ''Properties''
       = None
   \<and> Property_init ''P''
        (JObj [(''Documentation'', JStr ''d''), (''UpdateType'', JStr ''Mutable'')])
       = Inl (KeyError ''Required'')"
  by (simp add: Property_init_leaf)

text \<open>
  C4, as the code has it. Construction fails whenever a mandatory key is absent:
  \<^verbatim>\<open>Documentation\<close> from any property definition, \<^verbatim>\<open>UpdateType\<close> or
  \<^verbatim>\<open>Required\<close> from a property definition without \<^verbatim>\<open>Properties\<close>, and
  \<^verbatim>\<open>Documentation\<close>, \<^verbatim>\<open>Attributes\<close> or \<^verbatim>\<open>Properties\<close> from a
  resource definition. The failure of a nested property makes the enclosing property and the
  enclosing resource fail. A property definition without \<^verbatim>\<open>Properties\<close> fails exactly
  when \<^verbatim>\<open>Documentation\<close>, \<^verbatim>\<open>UpdateType\<close> or \<^verbatim>\<open>Required\<close> is absent or
  \<^verbatim>\<open>UpdateType\<close> is not one of the three valid values.
\<close>

theorem missing_mandatory_key_fails:
  "(map_of kvs ''Documentation'' = None \<longrightarrow> fails (Property_init n (JObj kvs)))
   \<and> (map_of kvs ''Properties'' = None
        \<and> (map_of kvs ''UpdateType'' = None \<or> map_of kvs ''Required'' = None) \<longrightarrow>
      fails (Property_init n (JObj kvs)))
   \<and> (map_of kvs ''Documentation'' = None \<or> map_of kvs ''Attributes'' = None
        \<or> map_of kvs ''Properties'' = None \<longrightarrow>
      fails (Resource_init n (JObj kvs)))
   \<and> (map_of kvs ''Properties'' = Some (JObj items) \<and> (k, v) \<in> set items
        \<and> fails (Property_init k v) \<longrightarrow>
      fails (Property_init n (JObj kvs)) \<and> fails (Resource_init n (JObj kvs)))
   \<and> (map_of kvs ''Properties'' = None \<longrightarrow>
      (fails (Property_init n (JObj kvs)) \<longleftrightarrow>
         map_of kvs ''Documentation'' = None \<or> map_of kvs ''UpdateType'' = None
         \<or> map_of kvs ''Required'' = None
         \<or> map_of kvs ''UpdateType''
              \<notin> Some ` {JStr ''Immutable'', JStr ''Mutable'', JStr ''Conditional''}))"
proof (intro conjI impI)
  assume "map_of kvs ''Documentation'' = None"
  then show "fails (Property_init n (JObj kvs))"
    by (simp add: Property_init_no_Documentation fails_def)
next
  assume "map_of kvs ''Properties'' = None
    \<and> (map_of kvs ''UpdateType'' = None \<or> map_of kvs ''Required'' = None)"
  then show "fails (Property_init n (JObj kvs))"
    by (auto simp add: Property_init_fails_leaf)
next
  assume "map_of kvs ''Documentation'' = None \<or> map_of kvs ''Attributes'' = None
    \<or> map_of kvs ''Properties'' = None"
  then show "fails (Resource_init n (JObj kvs))"
    by (auto simp add: Resource_init_dict fails_def split: option.splits sum.splits)
next
  assume *: "map_of kvs ''Properties'' = Some (JObj items) \<and> (k, v) \<in> set items
    \<and> fails (Property_init k v)"
  then show "fails (Property_init n (JObj kvs))"
    by (blast intro: Property_init_nested_fails)
  from * show "fails (Resource_init n (JObj kvs))"
    by (blast intro: Resource_init_nested_fails)
next
  assume "map_of kvs ''Properties'' = None"
  then show "fails (Property_init n (JObj kvs)) \<longleftrightarrow>
         map_of kvs ''Documentation'' = None \<or> map_of kvs ''UpdateType'' = None
         \<or> map_of kvs ''Required'' = None
         \<or> map_of kvs ''UpdateType''
              \<notin> Some ` {JStr ''Immutable'', JStr ''Mutable'', JStr ''Conditional''}"
    by (auto simp add: Property_init_fails_leaf)
qed

text \<open>A container without \<^verbatim>\<open>Documentation\<close>, a leaf without \<^verbatim>\<open>Required\<close>, a
  resource without \<^verbatim>\<open>Attributes\<close>, a resource whose property lacks
  \<^verbatim>\<open>Documentation\<close>, and a complete leaf, which is built.\<close>

theorem missing_mandatory_key_fails_witness:
  "fails (Property_init ''P'' (JObj [(''Properties'', JObj [])]))
   \<and> fails (Property_init ''P'' (JObj [(''Documentation'', JStr ''d''),
        (''UpdateType'', JStr ''Mutable'')]))
   \<and> fails (Resource_init ''R'' (JObj [(''Documentation'', JStr ''d''),
        (''Properties'', JObj [])]))
   \<and> fails (Resource_init ''R'' (JObj [(''Documentation'', JStr ''d''),
        (''Attributes'', JObj []),
        (''Properties'', JObj [(''Sub'', JObj [(''UpdateType'', JStr ''Mutable''),
             (''Required'', JBool True)])])]))
   \<and> \<not> fails (Property_init ''P'' (JObj [(''Documentation'', JStr ''d''),
        (''UpdateType'', JStr ''Mutable''), (''Required'', JBool False)]))"
  using
    missing_mandatory_key_fails [of "[(''Properties'', JObj [])]" "''P''"]
    missing_mandatory_key_fails
      [of "[(''Documentation'', JStr ''d''), (''UpdateType'', JStr ''Mutable'')]" "''P''"]
    missing_mandatory_key_fails
      [of "[(''Documentation'', JStr ''d''), (''Properties'', JObj [])]" "''R''"]
    missing_mandatory_key_fails
      [of "[(''Documentation'', JStr ''d''), (''Attributes'', JObj []),
            (''Properties'', JObj [(''Sub'', JObj [(''UpdateType'', JStr ''Mutable''),
               (''Required'', JBool True)])])]" "''R''"
          "[(''Sub'', JObj [(''UpdateType'', JStr ''Mutable''), (''Required'', JBool True)])]"
          "''Sub''" "JObj [(''UpdateType'', JStr ''Mutable''), (''Required'', JBool True)]"]
    missing_mandatory_key_fails
      [of "[(''UpdateType'', JStr ''Mutable''), (''Required'', JBool True)]" "''Sub''"]
    missing_mandatory_key_fails
      [of "[(''Documentation'', JStr ''d''), (''UpdateType'', JStr ''Mutable''),
            (''Required'', JBool False)]" "''P''"]
  by simp

text \<open>C4 as stated fails: with every mandatory key present, an \<^verbatim>\<open>UpdateType\<close> outside
  the three valid values makes the construction fail.\<close>

theorem missing_mandatory_key_fails_counterexample:
  "fails (Property_init ''P'' (JObj [(''Documentation'', JStr ''d''),
        (''UpdateType'', JStr ''Foo''), (''Required'', JBool True)]))
   \<and> map_of [(''Documentation'', JStr ''d''), (''UpdateType'', JStr ''Foo''),
        (''Required'', JBool True)] ''Properties'' = None
   \<and> map_of [(''Documentation'', JStr ''d''), (''UpdateType'', JStr ''Foo''),
        (''Required'', JBool True)] ''Documentation'' \<noteq> None
   \<and> map_of [(''Documentation'', JStr ''d''), (''UpdateType'', JStr ''Foo''),
        (''Required'', JBool True)] ''UpdateType'' \<noteq> None
   \<and> map_of [(''Documentation'', JStr ''d''), (''UpdateType'', JStr ''Foo''),
        (''Required'', JBool True)] ''Required'' \<noteq> None"
  by (simp add: Property_init_leaf fails_def)

text \<open>
  C2. For every property definition dict with a \<^verbatim>\<open>Properties\<close> sub-map, the Property
  that is constructed has one entry in \<open>properties\<close> per key of the sub-map, in the same
  order and under the same name, each the Property that the constructor returns for that
  name and sub-definition; and \<open>required\<close>, \<open>update_type\<close>, \<open>duplicate_allowed\<close>,
  \<open>primitive_type\<close> and \<open>type\<close> are all unset, whatever other keys stand beside
  \<^verbatim>\<open>Properties\<close>.
\<close>

theorem Property_container:
  assumes "map_of kvs ''Properties'' = Some (JObj items)"
    and "distinct (map fst items)"
    and "Property_init n (JObj kvs) = Inr p"
  shows "built_from Property_init items (properties p)
    \<and> map fst (properties p) = map fst items
    \<and> length (properties p) = length items
    \<and> required (members p) = JNull
    \<and> update_type p = JNull
    \<and> duplicate_allowed (members p) = JNull
    \<and> primitive_type (members p) = None
    \<and> type (members p) = None"
proof -
  from Property_init_container_Inr [OF assms(1,3)] obtain doc where
    m: "members p = (members (Property_new n))\<lparr>documentation := doc\<rparr>"
    and b: "build_all Property_init [] items = Inr (properties p)"
    by auto
  from b assms(2) have bf: "built_from Property_init items (properties p)"
    by (rule build_all_empty_distinct)
  from m have "required (members p) = JNull" "update_type p = JNull"
    "duplicate_allowed (members p) = JNull" "primitive_type (members p) = None"
    "type (members p) = None"
    by (simp_all add: Property_new_def update_type_def)
  with bf show ?thesis
    by (simp add: built_from_keys built_from_length)
qed

text \<open>A container with \<^verbatim>\<open>Required\<close>, \<^verbatim>\<open>UpdateType\<close> and \<^verbatim>\<open>PrimitiveType\<close>
  beside \<^verbatim>\<open>Properties\<close>, holding a leaf and an empty container.\<close>

theorem Property_container_witness:
  "\<exists>p. Property_init ''Group''
      (JObj [(''Documentation'', JStr ''d''), (''Required'', JBool True),
             (''UpdateType'', JStr ''Mutable''), (''PrimitiveType'', JStr ''String''),
             (''Properties'', JObj [
                (''Sub'', JObj [(''Documentation'', JStr ''s''),
                   (''PrimitiveType'', JStr ''Integer''), (''UpdateType'', JStr ''Mutable''),
                   (''Required'', JBool False)]),
                (''Inner'', JObj [(''Documentation'', JStr ''i''),
                   (''Properties'', JObj [])])])]) = Inr p
     \<and> map fst (properties p) = [''Sub'', ''Inner'']
     \<and> required (members p) = JNull \<and> update_type p = JNull
     \<and> duplicate_allowed (members p) = JNull
     \<and> primitive_type (members p) = None \<and> type (members p) = None"
proof -
  let ?items = "[
      (''Sub'', JObj [(''Documentation'', JStr ''s''),
         (''PrimitiveType'', JStr ''Integer''), (''UpdateType'', JStr ''Mutable''),
         (''Required'', JBool False)]),
      (''Inner'', JObj [(''Documentation'', JStr ''i''), (''Properties'', JObj [])])]"
  let ?kvs = "[(''Documentation'', JStr ''d''), (''Required'', JBool True),
      (''UpdateType'', JStr ''Mutable''), (''PrimitiveType'', JStr ''String''),
      (''Properties'', JObj ?items)]"
  have props: "map_of ?kvs ''Properties'' = Some (JObj ?items)" by simp
  have dist: "distinct (map fst ?items)" by simp
  obtain p where p: "Property_init ''Group'' (JObj ?kvs) = Inr p"
    by (simp add: Property_init_container Property_init_leaf)
  from Property_container [OF props dist p] p show ?thesis
    by simp
qed

text \<open>
  C7. For every resource definition that is built, with \<open>N\<close> entries under
  \<^verbatim>\<open>Attributes\<close> and \<open>M\<close> under \<^verbatim>\<open>Properties\<close>, the Resource has exactly \<open>N\<close>
  entries in \<open>attributes\<close> and \<open>M\<close> in \<open>properties\<close>, under the names of the
  input mappings.
\<close>

theorem Resource_entries:
  assumes "Resource_init n (JObj kvs) = Inr r"
    and "map_of kvs ''Attributes'' = Some (JObj as)"
    and "map_of kvs ''Properties'' = Some (JObj ps)"
    and "distinct (map fst as)"
    and "distinct (map fst ps)"
  shows "length (attributes r) = length as
    \<and> length (properties_R r) = length ps
    \<and> map fst (attributes r) = map fst as
    \<and> map fst (properties_R r) = map fst ps"
proof -
  from Resource_init_Inr [OF assms(1)] assms(2,3)
  have "build_all Attribute_init [] as = Inr (attributes r)"
    "build_all Property_init [] ps = Inr (properties_R r)"
    by auto
  with assms(4,5) have "built_from Attribute_init as (attributes r)"
    "built_from Property_init ps (properties_R r)"
    by (auto intro: build_all_empty_distinct)
  then show ?thesis
    by (simp add: built_from_keys built_from_length)
qed

text \<open>A resource with two attributes and one property.\<close>

theorem Resource_entries_witness:
  "\<exists>r. Resource_init ''Bucket''
      (JObj [(''Documentation'', JStr ''d''),
         (''Attributes'', JObj [(''Arn'', JObj [(''PrimitiveType'', JStr ''String'')]),
            (''Url'', JObj [(''PrimitiveType'', JStr ''String'')])]),
         (''Properties'', JObj [(''Name'', JObj [(''Documentation'', JStr ''s''),
            (''PrimitiveType'', JStr ''String''), (''UpdateType'', JStr ''Immutable''),
            (''Required'', JBool False)])])]) = Inr r
     \<and> length (attributes r) = 2 \<and> length (properties_R r) = 1
     \<and> map fst (attributes r) = [''Arn'', ''Url'']
     \<and> map fst (properties_R r) = [''Name'']"
proof -
  let ?as = "[(''Arn'', JObj [(''PrimitiveType'', JStr ''String'')]),
      (''Url'', JObj [(''PrimitiveType'', JStr ''String'')])]"
  let ?ps = "[(''Name'', JObj [(''Documentation'', JStr ''s''),
      (''PrimitiveType'', JStr ''String''), (''UpdateType'', JStr ''Immutable''),
      (''Required'', JBool False)])]"
  let ?kvs = "[(''Documentation'', JStr ''d''), (''Attributes'', JObj ?as),
      (''Properties'', JObj ?ps)]"
  obtain r where r: "Resource_init ''Bucket'' (JObj ?kvs) = Inr r"
    by (simp add: Resource_init_dict Attribute_init_dict Property_init_leaf)
  have "map_of ?kvs ''Attributes'' = Some (JObj ?as)"
    "map_of ?kvs ''Properties'' = Some (JObj ?ps)"
    "distinct (map fst ?as)" "distinct (map fst ?ps)"
    by simp_all
  from Resource_entries [OF r this] r show ?thesis
    by simp
qed

text \<open>
  C9. A constructor raises or returns an entity that is built whole. An Attribute that is
  returned is the initial object with the type resolution of its definition applied: on a
  dict, the branch of the Attribute Resolver that the keys select; on any other value that
  lets \<^verbatim>\<open>parse\<close> through, the initial object. A Property that is returned comes from a
  dict with \<^verbatim>\<open>Documentation\<close>, carries its name and that documentation, has both item
  fields unset, and is either a container, with every sub-property built without failure
  and stored entry for entry under its name and all other fields unset, or a leaf, with the
  valid \<^verbatim>\<open>UpdateType\<close>, the \<^verbatim>\<open>Required\<close> value, the resolved \<open>primitive_type\<close>
  and \<open>type\<close>, the \<^verbatim>\<open>DuplicatesAllowed\<close> value or \<^verbatim>\<open>None\<close>, and no
  sub-properties. A Resource that is returned comes from a dict with
  \<^verbatim>\<open>Documentation\<close>, \<^verbatim>\<open>Attributes\<close> and \<^verbatim>\<open>Properties\<close>, carries its name and
  that documentation, and every attribute and property of the definition was built without
  failure and is stored, entry for entry, under its name. When the build of a Resource or
  of a container Property fails although its own mandatory keys are present, the error is
  the one a nested constructor raised, passed on unchanged.
\<close>

theorem construction_all_or_nothing:
  "(Attribute_init n d = Inr a \<longrightarrow>
      a = (case d of JObj kvs \<Rightarrow> resolve_type (Attribute_new n) kvs | _ \<Rightarrow> Attribute_new n))
   \<and> (Resource_init n d = Inr r \<longrightarrow>
      (\<exists>kvs as ps. d = JObj kvs
         \<and> map_of kvs ''Documentation'' = Some (documentation_R r)
         \<and> map_of kvs ''Attributes'' = Some (JObj as)
         \<and> map_of kvs ''Properties'' = Some (JObj ps)
         \<and> name_R r = n
         \<and> (\<forall>kv \<in> set as. \<not> fails (Attribute_init (fst kv) (snd kv)))
         \<and> (\<forall>kv \<in> set ps. \<not> fails (Property_init (fst kv) (snd kv)))
         \<and> (distinct (map fst as) \<longrightarrow> built_from Attribute_init as (attributes r))
         \<and> (distinct (map fst ps) \<longrightarrow> built_from Property_init ps (properties_R r))))
   \<and> (Property_init n d = Inr p \<longrightarrow>
      (\<exists>kvs. d = JObj kvs
         \<and> map_of kvs ''Documentation'' = Some (documentation (members p))
         \<and> name (members p) = n
         \<and> item_type (members p) = None
         \<and> primitive_item_type (members p) = None
         \<and> (case map_of kvs ''Properties'' of
               Some sub \<Rightarrow>
                 (\<exists>items. sub = JObj items
                    \<and> (\<forall>kv \<in> set items. \<not> fails (Property_init (fst kv) (snd kv)))
                    \<and> (distinct (map fst items) \<longrightarrow>
                         built_from Property_init items (properties p)))
                 \<and> primitive_type (members p) = None
                 \<and> type (members p) = None
                 \<and> duplicate_allowed (members p) = JNull
                 \<and> required (members p) = JNull
                 \<and> update_type p = JNull
             | None \<Rightarrow>
                 map_of kvs ''UpdateType'' = Some (update_type p)
                 \<and> update_type p \<in> {JStr ''Immutable'', JStr ''Mutable'', JStr ''Conditional''}
                 \<and> map_of kvs ''Required'' = Some (required (members p))
                 \<and> primitive_type (members p)
                     = primitive_type (resolve_type (Attribute_new n) kvs)
                 \<and> type (members p) = type (resolve_type (Attribute_new n) kvs)
                 \<and> duplicate_allowed (members p)
                     = (case map_of kvs ''DuplicatesAllowed'' of None \<Rightarrow> JNull | Some x \<Rightarrow> x)
                 \<and> properties p = [])))
   \<and> (Resource_init n (JObj kvs) = Inl e \<and> map_of kvs ''Documentation'' \<noteq> None
        \<and> map_of kvs ''Attributes'' = Some (JObj as)
        \<and> map_of kvs ''Properties'' = Some (JObj ps) \<longrightarrow>
      (\<exists>kv \<in> set as. Attribute_init (fst kv) (snd kv) = Inl e)
      \<or> (\<exists>kv \<in> set ps. Property_init (fst kv) (snd kv) = Inl e))
   \<and> (Property_init n (JObj kvs) = Inl e \<and> map_of kvs ''Documentation'' \<noteq> None
        \<and> map_of kvs ''Properties'' = Some (JObj ps) \<longrightarrow>
      (\<exists>kv \<in> set ps. Property_init (fst kv) (snd kv) = Inl e))"
proof (intro conjI impI)
  assume "Attribute_init n d = Inr a"
  then show "a = (case d of JObj kvs \<Rightarrow> resolve_type (Attribute_new n) kvs
      | _ \<Rightarrow> Attribute_new n)"
    by (rule Attribute_init_Inr)
next
  assume "Resource_init n d = Inr r"
  from Resource_init_Inr [OF this] obtain kvs as ps where
    *: "d = JObj kvs" "map_of kvs ''Documentation'' = Some (documentation_R r)"
      "map_of kvs ''Attributes'' = Some (JObj as)" "map_of kvs ''Properties'' = Some (JObj ps)"
      "name_R r = n"
    and a: "build_all Attribute_init [] as = Inr (attributes r)"
    and b: "build_all Property_init [] ps = Inr (properties_R r)"
    by blast
  have "\<forall>kv \<in> set as. \<not> fails (Attribute_init (fst kv) (snd kv))"
    "\<forall>kv \<in> set ps. \<not> fails (Property_init (fst kv) (snd kv))"
    "distinct (map fst as) \<longrightarrow> built_from Attribute_init as (attributes r)"
    "distinct (map fst ps) \<longrightarrow> built_from Property_init ps (properties_R r)"
    using a b by (auto intro: build_all_empty_distinct dest: build_all_not_fails)
  with * show "\<exists>kvs as ps. d = JObj kvs
         \<and> map_of kvs ''Documentation'' = Some (documentation_R r)
         \<and> map_of kvs ''Attributes'' = Some (JObj as)
         \<and> map_of kvs ''Properties'' = Some (JObj ps)
         \<and> name_R r = n
         \<and> (\<forall>kv \<in> set as. \<not> fails (Attribute_init (fst kv) (snd kv)))
         \<and> (\<forall>kv \<in> set ps. \<not> fails (Property_init (fst kv) (snd kv)))
         \<and> (distinct (map fst as) \<longrightarrow> built_from Attribute_init as (attributes r))
         \<and> (distinct (map fst ps) \<longrightarrow> built_from Property_init ps (properties_R r))"
    by blast
next
  assume init: "Property_init n d = Inr p"
  from Property_init_Inr [OF init] obtain kvs where
    *: "d = JObj kvs" "map_of kvs ''Documentation'' = Some (documentation (members p))"
      "name (members p) = n"
    and c: "case map_of kvs ''Properties'' of
          Some sub \<Rightarrow>
            (\<exists>items. sub = JObj items
               \<and> build_all Property_init [] items = Inr (properties p))
        | None \<Rightarrow>
            map_of kvs ''UpdateType'' = Some (update_type p)
            \<and> update_type p \<in> {JStr ''Immutable'', JStr ''Mutable'', JStr ''Conditional''}
            \<and> map_of kvs ''Required'' = Some (required (members p))
            \<and> properties p = []"
    by blast
  from init have item: "item_type (members p) = None" "primitive_item_type (members p) = None"
    by (simp_all add: Property_init_shape)
  note init' = init [unfolded *(1)]
  have "case map_of kvs ''Properties'' of
               Some sub \<Rightarrow>
                 (\<exists>items. sub = JObj items
                    \<and> (\<forall>kv \<in> set items. \<not> fails (Property_init (fst kv) (snd kv)))
                    \<and> (distinct (map fst items) \<longrightarrow>
                         built_from Property_init items (properties p)))
                 \<and> primitive_type (members p) = None
                 \<and> type (members p) = None
                 \<and> duplicate_allowed (members p) = JNull
                 \<and> required (members p) = JNull
                 \<and> update_type p = JNull
             | None \<Rightarrow>
                 map_of kvs ''UpdateType'' = Some (update_type p)
                 \<and> update_type p \<in> {JStr ''Immutable'', JStr ''Mutable'', JStr ''Conditional''}
                 \<and> map_of kvs ''Required'' = Some (required (members p))
                 \<and> primitive_type (members p)
                     = primitive_type (resolve_type (Attribute_new n) kvs)
                 \<and> type (members p) = type (resolve_type (Attribute_new n) kvs)
                 \<and> duplicate_allowed (members p)
                     = (case map_of kvs ''DuplicatesAllowed'' of None \<Rightarrow> JNull | Some x \<Rightarrow> x)
                 \<and> properties p = []"
  proof (cases "map_of kvs ''Properties''")
    case None
    from Property_init_leaf_fields [OF None init'] c None show ?thesis by simp
  next
    case (Some sub)
    with c obtain items where "sub = JObj items"
      and b: "build_all Property_init [] items = Inr (properties p)"
      by auto
    moreover from b have "\<forall>kv \<in> set items. \<not> fails (Property_init (fst kv) (snd kv))"
      by (auto dest: build_all_not_fails)
    moreover from b have "distinct (map fst items) \<longrightarrow>
        built_from Property_init items (properties p)"
      by (auto intro: build_all_empty_distinct)
    ultimately show ?thesis
      using Some Property_init_container_fields [OF Some init'] by simp
  qed
  with * item show "\<exists>kvs. d = JObj kvs
         \<and> map_of kvs ''Documentation'' = Some (documentation (members p))
         \<and> name (members p) = n
         \<and> item_type (members p) = None
         \<and> primitive_item_type (members p) = None
         \<and> (case map_of kvs ''Properties'' of
               Some sub \<Rightarrow>
                 (\<exists>items. sub = JObj items
                    \<and> (\<forall>kv \<in> set items. \<not> fails (Property_init (fst kv) (snd kv)))
                    \<and> (distinct (map fst items) \<longrightarrow>
                         built_from Property_init items (properties p)))
                 \<and> primitive_type (members p) = None
                 \<and> type (members p) = None
                 \<and> duplicate_allowed (members p) = JNull
                 \<and> required (members p) = JNull
                 \<and> update_type p = JNull
             | None \<Rightarrow>
                 map_of kvs ''UpdateType'' = Some (update_type p)
                 \<and> update_type p \<in> {JStr ''Immutable'', JStr ''Mutable'', JStr ''Conditional''}
                 \<and> map_of kvs ''Required'' = Some (required (members p))
                 \<and> primitive_type (members p)
                     = primitive_type (resolve_type (Attribute_new n) kvs)
                 \<and> type (members p) = type (resolve_type (Attribute_new n) kvs)
                 \<and> duplicate_allowed (members p)
                     = (case map_of kvs ''DuplicatesAllowed'' of None \<Rightarrow> JNull | Some x \<Rightarrow> x)
                 \<and> properties p = [])"
    by blast
next
  assume "Resource_init n (JObj kvs) = Inl e \<and> map_of kvs ''Documentation'' \<noteq> None
        \<and> map_of kvs ''Attributes'' = Some (JObj as)
        \<and> map_of kvs ''Properties'' = Some (JObj ps)"
  then show "(\<exists>kv \<in> set as. Attribute_init (fst kv) (snd kv) = Inl e)
      \<or> (\<exists>kv \<in> set ps. Property_init (fst kv) (snd kv) = Inl e)"
    using Resource_init_Inl [of n kvs e as ps] by blast
next
  assume "Property_init n (JObj kvs) = Inl e \<and> map_of kvs ''Documentation'' \<noteq> None
        \<and> map_of kvs ''Properties'' = Some (JObj ps)"
  then show "\<exists>kv \<in> set ps. Property_init (fst kv) (snd kv) = Inl e"
    using Property_init_Inl_container [of n kvs e ps] by blast
qed

text \<open>An attribute with a primitive type; a leaf property with a list type and
  \<^verbatim>\<open>DuplicatesAllowed\<close>; a resource that is built whole; and a resource whose only
  property has an invalid \<^verbatim>\<open>UpdateType\<close>: the property's error is the resource's
  error.\<close>

theorem construction_all_or_nothing_witness:
  "Attribute_init ''Arn'' (JObj [(''PrimitiveType'', JStr ''String'')])
     = Inr \<lparr>name = ''Arn'', item_type = None, primitive_item_type = None,
            primitive_type = Some (PrimitiveType (JStr ''String'')), type = None\<rparr>
   \<and> (\<exists>p. Property_init ''Names''
        (JObj [(''Documentation'', JStr ''s''), (''Type'', JStr ''List''),
           (''PrimitiveItemType'', JStr ''String''), (''UpdateType'', JStr ''Immutable''),
           (''Required'', JBool False), (''DuplicatesAllowed'', JBool True)]) = Inr p
      \<and> name (members p) = ''Names'' \<and> documentation (members p) = JStr ''s''
      \<and> update_type p = JStr ''Immutable'' \<and> required (members p) = JBool False
      \<and> primitive_type (members p) = None
      \<and> type (members p) = Some (ListType (PrimitiveType (JStr ''String'')))
      \<and> duplicate_allowed (members p) = JBool True
      \<and> item_type (members p) = None \<and> primitive_item_type (members p) = None
      \<and> properties p = [])
   \<and> (\<exists>r. Resource_init ''Bucket''
        (JObj [(''Documentation'', JStr ''d''),
           (''Attributes'', JObj [(''Arn'', JObj [(''PrimitiveType'', JStr ''String'')])]),
           (''Properties'', JObj [(''Name'', JObj [(''Documentation'', JStr ''s''),
              (''PrimitiveType'', JStr ''String''), (''UpdateType'', JStr ''Immutable''),
              (''Required'', JBool False)])])]) = Inr r
      \<and> name_R r = ''Bucket'' \<and> documentation_R r = JStr ''d''
      \<and> built_from Attribute_init
           [(''Arn'', JObj [(''PrimitiveType'', JStr ''String'')])] (attributes r)
      \<and> built_from Property_init
           [(''Name'', JObj [(''Documentation'', JStr ''s''),
              (''PrimitiveType'', JStr ''String''), (''UpdateType'', JStr ''Immutable''),
              (''Required'', JBool False)])] (properties_R r))
   \<and> (\<exists>e. Resource_init ''Bad''
        (JObj [(''Documentation'', JStr ''d''), (''Attributes'', JObj []),
           (''Properties'', JObj [(''Name'', JObj [(''Documentation'', JStr ''s''),
              (''UpdateType'', JStr ''Foo''), (''Required'', JBool False)])])]) = Inl e
      \<and> Property_init ''Name''
        (JObj [(''Documentation'', JStr ''s''), (''UpdateType'', JStr ''Foo''),
           (''Required'', JBool False)]) = Inl e
      \<and> e = ValueError ''Invalid update type: %s'' (JStr ''Foo''))"
proof -
  \<comment> \<open>an Attribute\<close>
  let ?ad = "JObj [(''PrimitiveType'', JStr ''String'')]"
  obtain a where a: "Attribute_init ''Arn'' ?ad = Inr a"
    by (simp add: Attribute_init_dict)
  from construction_all_or_nothing [where n = "''Arn''" and d = ?ad and a = a] a
  have "a = resolve_type (Attribute_new ''Arn'') [(''PrimitiveType'', JStr ''String'')]"
    by simp
  with a have attr: "Attribute_init ''Arn'' ?ad
     = Inr \<lparr>name = ''Arn'', item_type = None, primitive_item_type = None,
            primitive_type = Some (PrimitiveType (JStr ''String'')), type = None\<rparr>"
    by (simp add: resolve_type_def Attribute_new_def)
  \<comment> \<open>a leaf Property\<close>
  let ?lk = "[(''Documentation'', JStr ''s''), (''Type'', JStr ''List''),
      (''PrimitiveItemType'', JStr ''String''), (''UpdateType'', JStr ''Immutable''),
      (''Required'', JBool False), (''DuplicatesAllowed'', JBool True)]"
  obtain p where p: "Property_init ''Names'' (JObj ?lk) = Inr p"
    by (simp add: Property_init_leaf)
  from construction_all_or_nothing [where n = "''Names''" and d = "JObj ?lk" and p = p] p
  have "name (members p) = ''Names'' \<and> documentation (members p) = JStr ''s''
      \<and> update_type p = JStr ''Immutable'' \<and> required (members p) = JBool False
      \<and> primitive_type (members p) = None
      \<and> type (members p) = Some (ListType (PrimitiveType (JStr ''String'')))
      \<and> duplicate_allowed (members p) = JBool True
      \<and> item_type (members p) = None \<and> primitive_item_type (members p) = None
      \<and> properties p = []"
    by (auto simp add: resolve_type_def Attribute_new_def)
  with p have leaf: "\<exists>p. Property_init ''Names'' (JObj ?lk) = Inr p
      \<and> name (members p) = ''Names'' \<and> documentation (members p) = JStr ''s''
      \<and> update_type p = JStr ''Immutable'' \<and> required (members p) = JBool False
      \<and> primitive_type (members p) = None
      \<and> type (members p) = Some (ListType (PrimitiveType (JStr ''String'')))
      \<and> duplicate_allowed (members p) = JBool True
      \<and> item_type (members p) = None \<and> primitive_item_type (members p) = None
      \<and> properties p = []"
    by blast
  \<comment> \<open>a Resource\<close>
  let ?as = "[(''Arn'', JObj [(''PrimitiveType'', JStr ''String'')])]"
  let ?ps = "[(''Name'', JObj [(''Documentation'', JStr ''s''),
      (''PrimitiveType'', JStr ''String''), (''UpdateType'', JStr ''Immutable''),
      (''Required'', JBool False)])]"
  let ?kvs = "[(''Documentation'', JStr ''d''), (''Attributes'', JObj ?as),
      (''Properties'', JObj ?ps)]"
  obtain r where r: "Resource_init ''Bucket'' (JObj ?kvs) = Inr r"
    by (simp add: Resource_init_dict Attribute_init_dict Property_init_leaf)
  from construction_all_or_nothing [where n = "''Bucket''" and d = "JObj ?kvs" and r = r] r
  have "name_R r = ''Bucket'' \<and> documentation_R r = JStr ''d''
      \<and> built_from Attribute_init ?as (attributes r)
      \<and> built_from Property_init ?ps (properties_R r)"
    by auto
  with r have good: "\<exists>r. Resource_init ''Bucket'' (JObj ?kvs) = Inr r
      \<and> name_R r = ''Bucket'' \<and> documentation_R r = JStr ''d''
      \<and> built_from Attribute_init ?as (attributes r)
      \<and> built_from Property_init ?ps (properties_R r)"
    by blast
  \<comment> \<open>a failure of the nested constructor\<close>
  let ?sub = "JObj [(''Documentation'', JStr ''s''), (''UpdateType'', JStr ''Foo''),
      (''Required'', JBool False)]"
  let ?bad = "[(''Documentation'', JStr ''d''), (''Attributes'', JObj []),
      (''Properties'', JObj [(''Name'', ?sub)])]"
  obtain e where e: "Resource_init ''Bad'' (JObj ?bad) = Inl e"
    by (simp add: Resource_init_dict Property_init_leaf)
  from construction_all_or_nothing
    [where n = "''Bad''" and kvs = ?bad and e = e and as = "[]" and ps = "[(''Name'', ?sub)]"] e
  have sub: "Property_init ''Name'' ?sub = Inl e"
    by simp
  then have "e = ValueError ''Invalid update type: %s'' (JStr ''Foo'')"
    by (simp add: Property_init_leaf)
  with e sub have bad: "\<exists>e. Resource_init ''Bad'' (JObj ?bad) = Inl e
      \<and> Property_init ''Name'' ?sub = Inl e
      \<and> e = ValueError ''Invalid update type: %s'' (JStr ''Foo'')"
    by blast
  from attr leaf good bad show ?thesis by blast
qed

end
